theory Spec2Isabelle
  imports Main
begin

section \<open>The message router of the utility process (src/node/UPMNodeProcess.ts)\<close>

subsection \<open>JavaScript values\<close>

text \<open>
  The router handles values of type \<^verbatim>\<open>any\<close>: event data, payloads, handler results
  and thrown errors. They are modelled by the data values that cross a message port:
  \<^verbatim>\<open>undefined\<close>, \<^verbatim>\<open>null\<close>, booleans, (integer) numbers, strings, arrays, plain
  objects and \<^verbatim>\<open>Error\<close> instances (name and message). A plain object is the list of
  its own properties, each key once. No value of the model is a function: an own property
  named \<^verbatim>\<open>toString\<close> hides the method of \<^verbatim>\<open>Object.prototype\<close> and cannot be called.
\<close>

datatype jsval =
    JUndefined
  | JNull
  | JBool bool
  | JNum int
  | JStr string
  | JArr "jsval list"
  | JObj "(string \<times> jsval) list"
  | JError string string

text \<open>A computation that may throw: \<open>Inl\<close> carries the thrown value.\<close>

type_synonym 'a result = "jsval + 'a"

fun nullish :: "jsval \<Rightarrow> bool" where
  "nullish JUndefined = True"
| "nullish JNull = True"
| "nullish _ = False"

text \<open>\<^verbatim>\<open>Boolean(v)\<close>: whether a value counts as true in a condition.\<close>

fun truthy :: "jsval \<Rightarrow> bool" where
  "truthy JUndefined = False"
| "truthy JNull = False"
| "truthy (JBool b) = b"
| "truthy (JNum i) = (i \<noteq> 0)"
| "truthy (JStr s) = (s \<noteq> [])"
| "truthy _ = True"

text \<open>
  Errors raised by the engine and by \<^verbatim>\<open>assert\<close> of the library @3fv/guard, which throws
  an error carrying the message it is given. The texts of engine errors are fixed here.
\<close>

definition TypeError :: "string \<Rightarrow> jsval" where
  "TypeError m = JError ''TypeError'' m"

definition AssertError :: "string \<Rightarrow> jsval" where
  "AssertError m = JError ''AssertError'' m"

fun assert :: "bool \<Rightarrow> string \<Rightarrow> unit result" where
  "assert True m = Inr ()"
| "assert False m = Inl (AssertError m)"

subsubsection \<open>Conversion to a string\<close>

definition digits :: string where
  "digits = ''0123456789''"

function natToString :: "nat \<Rightarrow> string" where
  "natToString n =
     (if n < 10 then [digits ! n] else natToString (n div 10) @ [digits ! (n mod 10)])"
  by pat_completeness auto
termination
  by (relation "measure id") auto

declare natToString.simps [simp del]

definition intToString :: "int \<Rightarrow> string" where
  "intToString i = (if i < 0 then CHR ''-'' # natToString (nat (- i)) else natToString (nat i))"

fun join :: "string list \<Rightarrow> string" where
  "join [] = []"
| "join [s] = s"
| "join (s # t # ss) = s @ CHR '','' # join (t # ss)"

text \<open>
  \<^verbatim>\<open>String(v)\<close>, the conversion that a template literal \<^verbatim>\<open>`${v}`\<close> applies. An object
  is converted by its \<^verbatim>\<open>toString\<close> method, and by \<^verbatim>\<open>valueOf\<close> when that is not a
  function: a plain object gives \<^verbatim>\<open>[object Object]\<close>, unless it has an own property
  \<^verbatim>\<open>toString\<close>, in which case neither method gives a primitive and the conversion
  throws. An array joins the conversions of its elements, and throws when one of them does.
\<close>

fun toString :: "jsval \<Rightarrow> string result"
  and toStrings :: "jsval list \<Rightarrow> (string list) result" where
  "toString JUndefined = Inr ''undefined''"
| "toString JNull = Inr ''null''"
| "toString (JBool b) = Inr (if b then ''true'' else ''false'')"
| "toString (JNum i) = Inr (intToString i)"
| "toString (JStr s) = Inr s"
| "toString (JArr vs) = (case toStrings vs of Inl e \<Rightarrow> Inl e | Inr ss \<Rightarrow> Inr (join ss))"
| "toString (JObj fs) =
     (if map_of fs ''toString'' = None then Inr ''[object Object]''
      else Inl (TypeError ''Cannot convert object to primitive value''))"
| "toString (JError n m) = Inr (if m = [] then n else if n = [] then m else n @ '': '' @ m)"
| "toStrings [] = Inr []"
| "toStrings (v # vs) =
     (case (if nullish v then Inr [] else toString v) of
        Inl e \<Rightarrow> Inl e
      | Inr s \<Rightarrow> (case toStrings vs of Inl e \<Rightarrow> Inl e | Inr ss \<Rightarrow> Inr (s # ss)))"

text \<open>
  The call \<^verbatim>\<open>v.toString()\<close> on a value that is neither \<^verbatim>\<open>undefined\<close> nor \<^verbatim>\<open>null\<close>: it
  throws when \<^verbatim>\<open>toString\<close> is an own property, which is not a function.
\<close>

fun callToString :: "jsval \<Rightarrow> string result" where
  "callToString (JObj fs) =
     (if map_of fs ''toString'' = None then Inr ''[object Object]''
      else Inl (TypeError ''toString is not a function''))"
| "callToString v = toString v"

text \<open>Whether the conversion to a string returns.\<close>

definition stringifiable :: "jsval \<Rightarrow> bool" where
  "stringifiable v = (case toString v of Inl e \<Rightarrow> False | Inr s \<Rightarrow> True)"

subsubsection \<open>Property access\<close>

text \<open>
  \<open>propOf v p\<close> is \<^verbatim>\<open>v.p\<close> on a value that is neither \<^verbatim>\<open>undefined\<close> nor \<^verbatim>\<open>null\<close>,
  for the property names the router reads (none of them is a built-in property of a
  primitive or of an array). \<open>getProp\<close> is the access itself, which throws on
  \<^verbatim>\<open>undefined\<close> and \<^verbatim>\<open>null\<close>; destructuring throws in the same way.
\<close>

fun propOf :: "jsval \<Rightarrow> string \<Rightarrow> jsval" where
  "propOf (JObj fs) p = (case map_of fs p of None \<Rightarrow> JUndefined | Some v \<Rightarrow> v)"
| "propOf (JError n m) p =
     (if p = ''message'' then JStr m else if p = ''name'' then JStr n else JUndefined)"
| "propOf _ p = JUndefined"

definition getProp :: "jsval \<Rightarrow> string \<Rightarrow> jsval result" where
  "getProp v p =
     (if nullish v
      then Inl (TypeError (''Cannot read properties of ''
                  @ (if v = JNull then ''null'' else ''undefined'') @ '' (reading '' @ p @ '')''))
      else Inr (propOf v p))"

text \<open>\<^verbatim>\<open>...args\<close> in a call: arrays and strings are iterable, nothing else here is.\<close>

fun spread :: "jsval \<Rightarrow> (jsval list) result" where
  "spread (JArr vs) = Inr vs"
| "spread (JStr s) = Inr (map (\<lambda>c. JStr [c]) s)"
| "spread v =
     Inl (TypeError ''Spread syntax requires ...iterable[Symbol.iterator] to be a function'')"

subsection \<open>Handlers, promises and ports\<close>

text \<open>
  A handler is user code. Its call either returns a value, returns a promise or throws;
  a promise is fulfilled with a value, rejected with a reason, or never settles. What a
  handler does besides is not part of the model: the result of a call depends on its
  arguments only.
  \<open>await\<close> is what \<^verbatim>\<open>await\<close> makes of a call: the value, the exception raised at the
  \<^verbatim>\<open>await\<close>, or no continuation at all. The event loop of the source awaits only when
  \<^verbatim>\<open>isPromise(res)\<close> holds, which gives the same three cases.
\<close>

datatype promise = Fulfilled jsval | Rejected jsval | Pending

datatype call_result = Returns jsval | ReturnsPromise promise | Throws jsval

datatype awaited = Value jsval | Raise jsval | Never

fun await :: "call_result \<Rightarrow> awaited" where
  "await (Returns v) = Value v"
| "await (ReturnsPromise (Fulfilled v)) = Value v"
| "await (ReturnsPromise (Rejected e)) = Raise e"
| "await (ReturnsPromise Pending) = Never"
| "await (Throws e) = Raise e"

type_synonym Port = nat

text \<open>\<^verbatim>\<open>process.parentPort\<close>.\<close>

definition processPort :: Port where
  "processPort = 0"

text \<open>
  A request handler receives \<^verbatim>\<open>(type, messageId, ...args)\<close>, an event handler
  \<^verbatim>\<open>(clientId, port, eventData)\<close>.
\<close>

type_synonym RequestHandler = "jsval \<Rightarrow> jsval \<Rightarrow> jsval list \<Rightarrow> call_result"

type_synonym EventHandler = "jsval \<Rightarrow> Port \<Rightarrow> jsval \<Rightarrow> call_result"

text \<open>
  The enum \<^verbatim>\<open>UPM.IPCChannel\<close> is declared in src/common, which is not among the sources:
  its two members, strings as the channel of an envelope is, are parameters of the model.
\<close>

record IPCChannel =
  UPMServiceMessage :: string
  UPMServiceNewClient :: string

text \<open>
  Modelled from the spec: the members of the enum \<^verbatim>\<open>UPM.MessageKind\<close> (declared in
  src/common, not among the sources), which the spec's envelope shape gives as
  \<^verbatim>\<open>kind: "request"|"response"|"event"\<close>.
\<close>

definition MessageKind_Request :: jsval where
  "MessageKind_Request = JStr ''request''"

definition MessageKind_Response :: jsval where
  "MessageKind_Response = JStr ''response''"

definition MessageKind_Event :: jsval where
  "MessageKind_Event = JStr ''event''"

subsection \<open>The state\<close>

text \<open>
  The three private fields of \<^verbatim>\<open>UPMNodeProcess\<close>, and what the router does to its
  environment: the lines it logs, the messages it posts (with the port), the listeners
  it attaches to client ports (each closes over its \<^verbatim>\<open>clientId\<close>), the ports it starts,
  the ports that have closed, and the handlers it calls, in the order of the calls. The
  fields are named as in the source, without the final underscore. The keys of
  \<open>clientPorts\<close> are compared as values, which is the comparison of \<^verbatim>\<open>Map\<close> on strings
  and other primitives.

  The delivery of one message is modelled as a whole, from the call of the listener to
  the end of the asynchronous method it starts; a method that waits for a promise that
  never settles ends there, and its promise stays pending.
\<close>

datatype log_level = Info | Error

datatype log_entry = Log log_level string "jsval list"

datatype handler_call =
    RequestCall jsval jsval "jsval list"
  | EventCall nat jsval Port jsval

record state =
  clientPorts :: "jsval \<rightharpoonup> Port"
  requestHandlers :: "string \<rightharpoonup> RequestHandler"
  eventHandlers :: "EventHandler list"
  logged :: "log_entry list"
  posted :: "(Port \<times> jsval) list"
  messageListeners :: "(Port \<times> jsval) list"
  closeListeners :: "(Port \<times> jsval) list"
  started :: "Port list"
  closedPorts :: "Port list"
  calls :: "handler_call list"

definition logInfo :: "string \<Rightarrow> jsval list \<Rightarrow> state \<Rightarrow> state" where
  "logInfo m vs st = st\<lparr>logged := logged st @ [Log Info m vs]\<rparr>"

definition logError :: "string \<Rightarrow> jsval list \<Rightarrow> state \<Rightarrow> state" where
  "logError m vs st = st\<lparr>logged := logged st @ [Log Error m vs]\<rparr>"

text \<open>
  \<^verbatim>\<open>port.postMessage(msg)\<close>. Every value of the model can be cloned, so that the call
  does not throw.
\<close>

definition postMessage :: "Port \<Rightarrow> jsval \<Rightarrow> state \<Rightarrow> state" where
  "postMessage port msg st = st\<lparr>posted := posted st @ [(port, msg)]\<rparr>"

text \<open>The state after the constructor, before any handler is added.\<close>

definition init :: state where
  "init = \<lparr>clientPorts = Map.empty, requestHandlers = Map.empty, eventHandlers = [],
     logged = [], posted = [], messageListeners = [], closeListeners = [], started = [],
     closedPorts = [], calls = []\<rparr>"

definition addRequestHandler :: "string \<Rightarrow> RequestHandler \<Rightarrow> state \<Rightarrow> state" where
  "addRequestHandler type handler st =
     (let st1 = logInfo (''Registering request handler for type ('' @ type @ '')'') [] st
      in st1\<lparr>requestHandlers := (requestHandlers st1)(type \<mapsto> handler)\<rparr>)"

definition addEventHandler :: "EventHandler \<Rightarrow> state \<Rightarrow> state" where
  "addEventHandler handler st =
     (let st1 = logInfo ''Registering event handler'' [] st
      in st1\<lparr>eventHandlers := eventHandlers st1 @ [handler]\<rparr>)"

subsection \<open>onServiceMessage\<close>

text \<open>
  \<^verbatim>\<open>requestHandlers_.has(type)\<close> and \<^verbatim>\<open>.get(type)\<close>: the keys are the strings given to
  \<open>addRequestHandler\<close>, so only a string finds a handler.
\<close>

fun getRequestHandler :: "(string \<rightharpoonup> RequestHandler) \<Rightarrow> jsval \<Rightarrow> RequestHandler option" where
  "getRequestHandler m (JStr t) = m t"
| "getRequestHandler m _ = None"

definition responseMessage :: "IPCChannel \<Rightarrow> jsval \<Rightarrow> jsval \<Rightarrow> jsval \<Rightarrow> jsval" where
  "responseMessage ch type messageId result =
     JObj [(''channel'', JStr (UPMServiceMessage ch)),
           (''payload'', JObj [(''type'', type), (''kind'', MessageKind_Response),
                               (''messageId'', messageId), (''result'', result)])]"

definition errorMessage :: "IPCChannel \<Rightarrow> jsval \<Rightarrow> jsval \<Rightarrow> jsval \<Rightarrow> jsval" where
  "errorMessage ch type messageId error =
     JObj [(''channel'', JStr (UPMServiceMessage ch)),
           (''payload'', JObj [(''type'', type), (''kind'', MessageKind_Response),
                               (''messageId'', messageId), (''result'', JNull),
                               (''error'', error)])]"

text \<open>How a \<^verbatim>\<open>try\<close> block ends: at its end, with an exception, or at an \<^verbatim>\<open>await\<close> for ever.\<close>

datatype try_end = TryDone | TryThrew jsval | TryStuck

text \<open>
  The \<^verbatim>\<open>try\<close> block of the request branch (lines 51 to 68). The message of the
  assertion is built before \<^verbatim>\<open>assert\<close> is called, whatever the registry holds.
\<close>

definition requestTry ::
  "IPCChannel \<Rightarrow> state \<Rightarrow> Port \<Rightarrow> jsval \<Rightarrow> jsval \<Rightarrow> jsval \<Rightarrow> state \<times> try_end" where
  "requestTry ch st port type messageId args =
     (case toString type of
        Inl e \<Rightarrow> (st, TryThrew e)
      | Inr t \<Rightarrow>
          (case assert (getRequestHandler (requestHandlers st) type \<noteq> None)
                  (''Unknown request handler ('' @ t @ '')'') of
             Inl e \<Rightarrow> (st, TryThrew e)
           | Inr _ \<Rightarrow>
               (case getRequestHandler (requestHandlers st) type of
                  None \<Rightarrow> (st, TryThrew (TypeError ''handler is not a function''))
                | Some handler \<Rightarrow>
                    (case spread args of
                       Inl e \<Rightarrow> (st, TryThrew e)
                     | Inr as \<Rightarrow>
                         (let st1 = st\<lparr>calls := calls st @ [RequestCall type messageId as]\<rparr>
                          in case await (handler type messageId as) of
                               Raise e \<Rightarrow> (st1, TryThrew e)
                             | Never \<Rightarrow> (st1, TryStuck)
                             | Value result \<Rightarrow>
                                 (postMessage port (responseMessage ch type messageId result) st1,
                                  TryDone))))))"

text \<open>
  The \<^verbatim>\<open>catch\<close> block of the request branch (lines 69 to 83). \<^verbatim>\<open>err.message\<close> throws
  when \<^verbatim>\<open>err\<close> is \<^verbatim>\<open>undefined\<close> or \<^verbatim>\<open>null\<close>, \<^verbatim>\<open>err.toString()\<close> may throw, and
  nothing catches that.
\<close>

definition requestCatch ::
  "IPCChannel \<Rightarrow> state \<Rightarrow> Port \<Rightarrow> jsval \<Rightarrow> jsval \<Rightarrow> jsval \<Rightarrow> state \<times> promise" where
  "requestCatch ch st port type messageId err =
     (let st1 = logError ''Unable to handle message'' [err] st
      in case getProp err ''message'' of
           Inl e \<Rightarrow> (st1, Rejected e)
         | Inr m \<Rightarrow>
             (case (if nullish m then map_sum id JStr (callToString err) else Inr m) of
                Inl e \<Rightarrow> (st1, Rejected e)
              | Inr error \<Rightarrow>
                  (postMessage port (errorMessage ch type messageId error) st1,
                   Fulfilled JUndefined)))"

definition onRequest ::
  "IPCChannel \<Rightarrow> state \<Rightarrow> Port \<Rightarrow> jsval \<Rightarrow> jsval \<Rightarrow> jsval \<Rightarrow> state \<times> promise" where
  "onRequest ch st port type messageId args =
     (case requestTry ch st port type messageId args of
        (st1, TryDone) \<Rightarrow> (st1, Fulfilled JUndefined)
      | (st1, TryStuck) \<Rightarrow> (st1, Pending)
      | (st1, TryThrew err) \<Rightarrow> requestCatch ch st1 port type messageId err)"

text \<open>
  The \<^verbatim>\<open>for\<close> loop of the event branch (lines 87 to 98), from the handler at position
  \<open>i\<close> on: the positions of the handlers it calls, and how it ends.
\<close>

datatype loop_end = Handled | Exhausted | Failed jsval | Stuck

fun eventLoop ::
  "EventHandler list \<Rightarrow> nat \<Rightarrow> jsval \<Rightarrow> Port \<Rightarrow> jsval \<Rightarrow> nat list \<times> loop_end" where
  "eventLoop [] i clientId port eventData = ([], Exhausted)"
| "eventLoop (handler # hs) i clientId port eventData =
     (case await (handler clientId port eventData) of
        Raise e \<Rightarrow> ([i], Failed e)
      | Never \<Rightarrow> ([i], Stuck)
      | Value res \<Rightarrow>
          if res = JBool True then ([i], Handled)
          else (case eventLoop hs (Suc i) clientId port eventData of
                  (is, r) \<Rightarrow> (i # is, r)))"

text \<open>
  The \<^verbatim>\<open>catch\<close> block of the event branch (lines 100 to 102): the text of the log
  line is built before \<^verbatim>\<open>log.error\<close> is called, and nothing catches what that throws.
\<close>

definition eventCatch :: "state \<Rightarrow> jsval \<Rightarrow> jsval \<Rightarrow> state \<times> promise" where
  "eventCatch st messageId err =
     (case toString messageId of
        Inl e \<Rightarrow> (st, Rejected e)
      | Inr m \<Rightarrow>
          (logError (''Unable to handle event ('' @ m @ '')'') [err] st, Fulfilled JUndefined))"

text \<open>
  The event branch (lines 85 to 103). When a handler has returned \<^verbatim>\<open>true\<close>, the text of
  the log line of line 95 is built inside the \<^verbatim>\<open>try\<close> block.
\<close>

definition onEvent :: "state \<Rightarrow> jsval \<Rightarrow> Port \<Rightarrow> jsval \<Rightarrow> jsval \<Rightarrow> state \<times> promise" where
  "onEvent st clientId port messageId eventData =
     (case eventLoop (eventHandlers st) 0 clientId port eventData of
        (is, r) \<Rightarrow>
          (let st1 = st\<lparr>calls := calls st @ map (\<lambda>i. EventCall i clientId port eventData) is\<rparr>
           in case r of
                Handled \<Rightarrow>
                  (case toString messageId of
                     Inl e \<Rightarrow> eventCatch st1 messageId e
                   | Inr m \<Rightarrow>
                       (logInfo (''Successfully handled ('' @ m @ '') event'') [] st1,
                        Fulfilled JUndefined))
              | Exhausted \<Rightarrow> (st1, Fulfilled JUndefined)
              | Failed err \<Rightarrow> eventCatch st1 messageId err
              | Stuck \<Rightarrow> (st1, Pending)))"

text \<open>
  The async method: the state when it stops, and the state of the promise it returned.
  What the method throws rejects the promise: the conversion of \<^verbatim>\<open>clientId\<close> for the
  first log line, the destructuring of a payload that is \<^verbatim>\<open>undefined\<close> or \<^verbatim>\<open>null\<close>,
  and the conversion of the kind in the last branch.
\<close>

definition onServiceMessage ::
  "IPCChannel \<Rightarrow> state \<Rightarrow> jsval \<Rightarrow> Port \<Rightarrow> jsval \<Rightarrow> state \<times> promise" where
  "onServiceMessage ch st clientId port payload =
     (case toString clientId of
        Inl e \<Rightarrow> (st, Rejected e)
      | Inr c \<Rightarrow>
          (let st1 = logInfo (''onServiceMessage from (clientId='' @ c @ '')'') [payload] st
           in if nullish payload
              then (st1, Rejected (TypeError ''Cannot destructure the payload''))
              else
                (let messageId = propOf payload ''messageId'';
                     kind = propOf payload ''kind'';
                     args = propOf payload ''args'';
                     eventData = propOf payload ''eventData'';
                     type = propOf payload ''type''
                 in if kind = MessageKind_Request
                    then onRequest ch st1 port type messageId args
                    else if kind = MessageKind_Event
                    then onEvent st1 clientId port messageId eventData
                    else (case toString kind of
                            Inl e \<Rightarrow> (st1, Rejected e)
                          | Inr k \<Rightarrow>
                              (logError (''Message kind ('' @ k @ '') is invalid here'') [] st1,
                               Fulfilled JUndefined)))))"

subsection \<open>Ports: onServiceClientPort, the listeners, onMessage\<close>

text \<open>
  The event a port delivers: its data, and the ports transferred with it. What becomes of
  a listener's call: it returns, it throws (nothing in the router catches that), the
  promise it dropped is rejected, or the promise never settles.
\<close>

record MessageEvent =
  data :: jsval
  ports :: "Port list"

datatype outcome = Completed | Uncaught jsval | UnhandledRejection jsval | NeverSettled

text \<open>
  What the two listeners make of the promise of \<open>onServiceMessage\<close>: \<open>onMessage\<close> drops
  it (line 115), so that nothing handles its rejection; the listener of a client port
  gives it to \<^verbatim>\<open>Future.of(...).onFailure\<close>, which logs its rejection (lines 34 and 35).
\<close>

fun dropped :: "state \<times> promise \<Rightarrow> state \<times> outcome" where
  "dropped (st, Fulfilled v) = (st, Completed)"
| "dropped (st, Rejected err) = (st, UnhandledRejection err)"
| "dropped (st, Pending) = (st, NeverSettled)"

fun onFailure :: "state \<times> promise \<Rightarrow> state \<times> outcome" where
  "onFailure (st, Fulfilled v) = (st, Completed)"
| "onFailure (st, Rejected err) = (logError ''Unable to handle message'' [err] st, Completed)"
| "onFailure (st, Pending) = (st, NeverSettled)"

text \<open>\<^verbatim>\<open>ev.data?.message ?? ev.data\<close>.\<close>

definition envelopeOf :: "jsval \<Rightarrow> jsval" where
  "envelopeOf d =
     (let m = (if nullish d then JUndefined else propOf d ''message'')
      in if nullish m then d else m)"

text \<open>
  The listener of \<^verbatim>\<open>"message"\<close> that \<open>onServiceClientPort\<close> attaches to a client port
  (lines 23 to 36). The texts of the log line and of the assertion are built before
  \<^verbatim>\<open>log.info\<close> and \<^verbatim>\<open>assert\<close> are called.
\<close>

definition clientPortMessage ::
  "IPCChannel \<Rightarrow> state \<Rightarrow> jsval \<Rightarrow> Port \<Rightarrow> MessageEvent \<Rightarrow> state \<times> outcome" where
  "clientPortMessage ch st clientId port ev =
     (let envelope = envelopeOf (data ev)
      in if nullish envelope
         then (st, Uncaught (TypeError ''Cannot destructure the envelope''))
         else
           (let channel = propOf envelope ''channel'';
                payload = propOf envelope ''payload''
            in case toString clientId of
                 Inl e \<Rightarrow> (st, Uncaught e)
               | Inr c \<Rightarrow>
                   (let st1 = logInfo (''Message received on client port ('' @ c @ '')'')
                                [envelope] st
                    in case toString channel of
                         Inl e \<Rightarrow> (st1, Uncaught e)
                       | Inr cs \<Rightarrow>
                           (case assert (channel = JStr (UPMServiceMessage ch))
                                   (''Only IPCChannel.UPMServiceMessage are allowed on client ports: ''
                                      @ cs) of
                              Inl e \<Rightarrow> (st1, Uncaught e)
                            | Inr _ \<Rightarrow>
                                onFailure (onServiceMessage ch st1 clientId port payload)))))"

text \<open>The listener of \<^verbatim>\<open>"close"\<close> (lines 38 to 40).\<close>

definition clientPortClose :: "state \<Rightarrow> jsval \<Rightarrow> state" where
  "clientPortClose st clientId = st\<lparr>clientPorts := (clientPorts st)(clientId := None)\<rparr>"

text \<open>
  \<open>onServiceClientPort\<close> (lines 19 to 43). The port is \<^verbatim>\<open>message.ports[0]\<close>, which is
  \<^verbatim>\<open>undefined\<close> when no port came with the message. The method reads \<open>clientPorts\<close>
  and never writes it.
\<close>

definition onServiceClientPort :: "state \<Rightarrow> jsval \<Rightarrow> Port option \<Rightarrow> state \<times> unit result" where
  "onServiceClientPort st clientId port =
     (case toString clientId of
        Inl e \<Rightarrow> (st, Inl e)
      | Inr c \<Rightarrow>
          (let st1 = logInfo (''Received new client port for clientId ('' @ c @ '')'') [] st
           in case assert (clientPorts st1 clientId = None)
                     (''port already registered for clientId('' @ c @ '')'') of
                Inl e \<Rightarrow> (st1, Inl e)
              | Inr _ \<Rightarrow>
                  (case port of
                     None \<Rightarrow>
                       (st1, Inl (TypeError ''Cannot read properties of undefined (reading on)''))
                   | Some p \<Rightarrow>
                       (st1\<lparr>messageListeners := messageListeners st1 @ [(p, clientId)],
                            closeListeners := closeListeners st1 @ [(p, clientId)],
                            started := started st1 @ [p]\<rparr>,
                        Inr ()))))"

text \<open>
  \<open>onMessage\<close> (lines 109 to 124), which the constructor makes the listener of the
  process port (line 127).
\<close>

definition onMessage :: "IPCChannel \<Rightarrow> state \<Rightarrow> Port \<Rightarrow> MessageEvent \<Rightarrow> state \<times> outcome" where
  "onMessage ch st port message =
     (let st1 = logInfo ''Message received on utilityProcess'' [data message] st;
          envelope = envelopeOf (data message)
      in if nullish envelope
         then (st1, Uncaught (TypeError ''Cannot destructure the envelope''))
         else
           (let channel = propOf envelope ''channel'';
                payload = propOf envelope ''payload''
            in if channel = JStr (UPMServiceMessage ch)
               then dropped (onServiceMessage ch st1 (JStr ''main'') port payload)
               else if channel = JStr (UPMServiceNewClient ch)
               then (case getProp payload ''clientId'' of
                       Inl e \<Rightarrow> (st1, Uncaught e)
                     | Inr clientId \<Rightarrow>
                         (case onServiceClientPort st1 clientId
                                 (case ports message of [] \<Rightarrow> None | p # _ \<Rightarrow> Some p) of
                            (st2, Inl e) \<Rightarrow> (st2, Uncaught e)
                          | (st2, Inr _) \<Rightarrow> (st2, Completed)))
               else (case toString channel of
                       Inl e \<Rightarrow> (st1, Uncaught e)
                     | Inr c \<Rightarrow> (logError (''Unknown channel ('' @ c @ '')'') [] st1, Completed))))"

subsection \<open>The states the router reaches\<close>

text \<open>
  A port closes: the listeners of \<^verbatim>\<open>"close"\<close> attached to it run, in the order in which
  they were attached.
\<close>

definition portClose :: "state \<Rightarrow> Port \<Rightarrow> state" where
  "portClose st port =
     (foldl clientPortClose st (map snd (filter (\<lambda>l. fst l = port) (closeListeners st))))
       \<lparr>closedPorts := closedPorts st @ [port]\<rparr>"

text \<open>
  The listeners of \<^verbatim>\<open>"message"\<close>: the one that the constructor attaches to the process
  port, which calls \<open>onMessage\<close> with that port (line 127), and the ones that
  \<open>onServiceClientPort\<close> attaches to client ports, each with its port and its
  \<^verbatim>\<open>clientId\<close>. \<open>deliver\<close> is the call of a listener with an event, \<open>attached\<close> says
  that the router has attached the listener, \<open>listenerClientId\<close> and \<open>listenerPort\<close>
  are the client identifier and the port with which the listener calls
  \<open>onServiceMessage\<close>, and \<open>settled\<close> is what the listener makes of the promise.
\<close>

datatype listener = ProcessListener | ClientListener Port jsval

fun deliver :: "IPCChannel \<Rightarrow> state \<Rightarrow> listener \<Rightarrow> MessageEvent \<Rightarrow> state \<times> outcome" where
  "deliver ch st ProcessListener ev = onMessage ch st processPort ev"
| "deliver ch st (ClientListener port clientId) ev = clientPortMessage ch st clientId port ev"

fun attached :: "state \<Rightarrow> listener \<Rightarrow> bool" where
  "attached st ProcessListener = True"
| "attached st (ClientListener port clientId) = ((port, clientId) \<in> set (messageListeners st))"

fun settled :: "listener \<Rightarrow> state \<times> promise \<Rightarrow> state \<times> outcome" where
  "settled ProcessListener r = dropped r"
| "settled (ClientListener port clientId) r = onFailure r"

fun listenerPort :: "listener \<Rightarrow> Port" where
  "listenerPort ProcessListener = processPort"
| "listenerPort (ClientListener port clientId) = port"

fun listenerClientId :: "listener \<Rightarrow> jsval" where
  "listenerClientId ProcessListener = JStr ''main''"
| "listenerClientId (ClientListener port clientId) = clientId"

text \<open>
  The event carries an envelope on the service channel, with the given payload, which is
  neither \<^verbatim>\<open>undefined\<close> nor \<^verbatim>\<open>null\<close>.
\<close>

definition serviceMessage :: "IPCChannel \<Rightarrow> MessageEvent \<Rightarrow> jsval \<Rightarrow> bool" where
  "serviceMessage ch ev payload \<longleftrightarrow>
     \<not> nullish (envelopeOf (data ev)) \<and>
     propOf (envelopeOf (data ev)) ''channel'' = JStr (UPMServiceMessage ch) \<and>
     propOf (envelopeOf (data ev)) ''payload'' = payload \<and>
     \<not> nullish payload"

text \<open>
  From the state after the constructor: a handler is added, a listener that the router
  has attached is called with an event of its port, which has not closed, or a port
  closes.
\<close>

inductive reachable :: "IPCChannel \<Rightarrow> state \<Rightarrow> bool" for ch :: IPCChannel where
  reach_init: "reachable ch init"
| reach_addRequestHandler:
    "reachable ch st \<Longrightarrow> reachable ch (addRequestHandler type handler st)"
| reach_addEventHandler:
    "reachable ch st \<Longrightarrow> reachable ch (addEventHandler handler st)"
| reach_deliver:
    "reachable ch st \<Longrightarrow> attached st l \<Longrightarrow> listenerPort l \<notin> set (closedPorts st) \<Longrightarrow>
     reachable ch (fst (deliver ch st l ev))"
| reach_portClose:
    "reachable ch st \<Longrightarrow> reachable ch (portClose st port)"

subsection \<open>Example inputs\<close>

text \<open>
  The two handlers of the example process of the repository (the second file of the
  sources): an event handler that returns \<^verbatim>\<open>true\<close> and the asynchronous handler of
  \<^verbatim>\<open>"heartbeat"\<close> requests, which returns \<^verbatim>\<open>true\<close>. Then further handlers, channel
  values and messages, on which the theorems below are instantiated.
\<close>

definition exampleEventHandler :: EventHandler where
  "exampleEventHandler clientId port payload = Returns (JBool True)"

definition heartbeat :: RequestHandler where
  "heartbeat type messageId args = ReturnsPromise (Fulfilled (JBool True))"

definition rejectsWithUndefined :: RequestHandler where
  "rejectsWithUndefined type messageId args = ReturnsPromise (Rejected JUndefined)"

definition returnsOne :: EventHandler where
  "returnsOne clientId port payload = ReturnsPromise (Fulfilled (JNum 1))"

definition returnsText :: EventHandler where
  "returnsText clientId port payload = Returns (JStr ''yes'')"

definition throwsBoom :: EventHandler where
  "throwsBoom clientId port payload = Throws (JError ''Error'' ''boom'')"

definition channels :: IPCChannel where
  "channels = \<lparr>UPMServiceMessage = ''UPMServiceMessage'',
                UPMServiceNewClient = ''UPMServiceNewClient''\<rparr>"

definition heartbeatRequest :: jsval where
  "heartbeatRequest =
     JObj [(''type'', JStr ''heartbeat''), (''kind'', JStr ''request''),
           (''messageId'', JStr ''m1''), (''args'', JArr [JNum 12])]"

definition tickEvent :: jsval where
  "tickEvent =
     JObj [(''type'', JStr ''tick''), (''kind'', JStr ''event''),
           (''messageId'', JStr ''m2''), (''eventData'', JNum 5)]"

definition heartbeatResponse :: jsval where
  "heartbeatResponse =
     JObj [(''type'', JStr ''heartbeat''), (''kind'', JStr ''response''),
           (''messageId'', JStr ''m1''), (''result'', JBool True)]"

definition bogusEnvelope :: jsval where
  "bogusEnvelope = JObj [(''channel'', JStr ''bogus''), (''payload'', tickEvent)]"

definition serviceEnvelope :: "jsval \<Rightarrow> jsval" where
  "serviceEnvelope payload = JObj [(''channel'', JStr ''UPMServiceMessage''), (''payload'', payload)]"

definition newClientEnvelope :: "string \<Rightarrow> jsval" where
  "newClientEnvelope clientId =
     JObj [(''channel'', JStr ''UPMServiceNewClient''),
           (''payload'', JObj [(''clientId'', JStr clientId)])]"

text \<open>
  A \<^verbatim>\<open>"heartbeat"\<close> request without \<^verbatim>\<open>args\<close>, an object that cannot be converted to a
  string, an event that has it as \<^verbatim>\<open>messageId\<close>, and an envelope that has it as channel.
\<close>

definition heartbeatRequestNoArgs :: jsval where
  "heartbeatRequestNoArgs =
     JObj [(''type'', JStr ''heartbeat''), (''kind'', JStr ''request''),
           (''messageId'', JStr ''m1'')]"

definition notStringifiable :: jsval where
  "notStringifiable = JObj [(''toString'', JNum 1)]"


definition oddChannelEnvelope :: jsval where
  "oddChannelEnvelope = JObj [(''channel'', notStringifiable), (''payload'', tickEvent)]"

section \<open>Properties\<close>

subsection \<open>What logging and posting leave alone\<close>

lemma logInfo_fields [simp]:
  "clientPorts (logInfo m vs st) = clientPorts st"
  "requestHandlers (logInfo m vs st) = requestHandlers st"
  "eventHandlers (logInfo m vs st) = eventHandlers st"
  "logged (logInfo m vs st) = logged st @ [Log Info m vs]"
  "posted (logInfo m vs st) = posted st"
  "messageListeners (logInfo m vs st) = messageListeners st"
  "closeListeners (logInfo m vs st) = closeListeners st"
  "started (logInfo m vs st) = started st"
  "closedPorts (logInfo m vs st) = closedPorts st"
  "calls (logInfo m vs st) = calls st"
  by (simp_all add: logInfo_def)

lemma logError_fields [simp]:
  "clientPorts (logError m vs st) = clientPorts st"
  "requestHandlers (logError m vs st) = requestHandlers st"
  "eventHandlers (logError m vs st) = eventHandlers st"
  "logged (logError m vs st) = logged st @ [Log Error m vs]"
  "posted (logError m vs st) = posted st"
  "messageListeners (logError m vs st) = messageListeners st"
  "closeListeners (logError m vs st) = closeListeners st"
  "started (logError m vs st) = started st"
  "closedPorts (logError m vs st) = closedPorts st"
  "calls (logError m vs st) = calls st"
  by (simp_all add: logError_def)

lemma postMessage_fields [simp]:
  "clientPorts (postMessage p msg st) = clientPorts st"
  "requestHandlers (postMessage p msg st) = requestHandlers st"
  "eventHandlers (postMessage p msg st) = eventHandlers st"
  "logged (postMessage p msg st) = logged st"
  "posted (postMessage p msg st) = posted st @ [(p, msg)]"
  "messageListeners (postMessage p msg st) = messageListeners st"
  "closeListeners (postMessage p msg st) = closeListeners st"
  "started (postMessage p msg st) = started st"
  "closedPorts (postMessage p msg st) = closedPorts st"
  "calls (postMessage p msg st) = calls st"
  by (simp_all add: postMessage_def)

lemma stringifiable_iff: "stringifiable v \<longleftrightarrow> (\<exists>s. toString v = Inr s)"
  by (cases "toString v") (simp_all add: stringifiable_def)

lemma getRequestHandler_Some:
  assumes "getRequestHandler m type = Some handler"
  obtains t where "type = JStr t"
  using assms by (cases type) simp_all

lemma requestTry_frame:
  "clientPorts (fst (requestTry ch st port type messageId args)) = clientPorts st"
  "requestHandlers (fst (requestTry ch st port type messageId args)) = requestHandlers st"
  "eventHandlers (fst (requestTry ch st port type messageId args)) = eventHandlers st"
  "messageListeners (fst (requestTry ch st port type messageId args)) = messageListeners st"
  "closeListeners (fst (requestTry ch st port type messageId args)) = closeListeners st"
  "started (fst (requestTry ch st port type messageId args)) = started st"
  "closedPorts (fst (requestTry ch st port type messageId args)) = closedPorts st"
  "logged (fst (requestTry ch st port type messageId args)) = logged st"
  by (simp_all add: requestTry_def Let_def split: sum.splits option.splits awaited.splits)

lemma requestCatch_frame:
  "clientPorts (fst (requestCatch ch st port type messageId err)) = clientPorts st"
  "requestHandlers (fst (requestCatch ch st port type messageId err)) = requestHandlers st"
  "eventHandlers (fst (requestCatch ch st port type messageId err)) = eventHandlers st"
  "messageListeners (fst (requestCatch ch st port type messageId err)) = messageListeners st"
  "closeListeners (fst (requestCatch ch st port type messageId err)) = closeListeners st"
  "started (fst (requestCatch ch st port type messageId err)) = started st"
  "closedPorts (fst (requestCatch ch st port type messageId err)) = closedPorts st"
  "calls (fst (requestCatch ch st port type messageId err)) = calls st"
  by (simp_all add: requestCatch_def Let_def split: sum.splits)

lemma onRequest_frame:
  "clientPorts (fst (onRequest ch st port type messageId args)) = clientPorts st"
  "requestHandlers (fst (onRequest ch st port type messageId args)) = requestHandlers st"
  "eventHandlers (fst (onRequest ch st port type messageId args)) = eventHandlers st"
  "messageListeners (fst (onRequest ch st port type messageId args)) = messageListeners st"
  "closeListeners (fst (onRequest ch st port type messageId args)) = closeListeners st"
  "started (fst (onRequest ch st port type messageId args)) = started st"
  "closedPorts (fst (onRequest ch st port type messageId args)) = closedPorts st"
  using requestTry_frame [of ch st port type messageId args]
  by (auto simp add: onRequest_def requestCatch_frame split: prod.splits try_end.splits)

lemma eventCatch_frame:
  "clientPorts (fst (eventCatch st m err)) = clientPorts st"
  "requestHandlers (fst (eventCatch st m err)) = requestHandlers st"
  "eventHandlers (fst (eventCatch st m err)) = eventHandlers st"
  "messageListeners (fst (eventCatch st m err)) = messageListeners st"
  "closeListeners (fst (eventCatch st m err)) = closeListeners st"
  "started (fst (eventCatch st m err)) = started st"
  "closedPorts (fst (eventCatch st m err)) = closedPorts st"
  "posted (fst (eventCatch st m err)) = posted st"
  "calls (fst (eventCatch st m err)) = calls st"
  by (simp_all add: eventCatch_def split: sum.splits)

lemma onEvent_frame:
  "clientPorts (fst (onEvent st c p m d)) = clientPorts st"
  "requestHandlers (fst (onEvent st c p m d)) = requestHandlers st"
  "eventHandlers (fst (onEvent st c p m d)) = eventHandlers st"
  "messageListeners (fst (onEvent st c p m d)) = messageListeners st"
  "closeListeners (fst (onEvent st c p m d)) = closeListeners st"
  "started (fst (onEvent st c p m d)) = started st"
  "closedPorts (fst (onEvent st c p m d)) = closedPorts st"
  "posted (fst (onEvent st c p m d)) = posted st"
  by (simp_all add: onEvent_def Let_def eventCatch_frame split: prod.splits loop_end.splits sum.splits)

lemma onEvent_calls:
  "calls (fst (onEvent st c p m d)) =
     calls st @ map (\<lambda>i. EventCall i c p d) (fst (eventLoop (eventHandlers st) 0 c p d))"
  by (simp add: onEvent_def Let_def eventCatch_frame split: prod.splits loop_end.splits sum.splits)

lemma onServiceMessage_frame:
  "clientPorts (fst (onServiceMessage ch st c p payload)) = clientPorts st"
  "requestHandlers (fst (onServiceMessage ch st c p payload)) = requestHandlers st"
  "eventHandlers (fst (onServiceMessage ch st c p payload)) = eventHandlers st"
  "messageListeners (fst (onServiceMessage ch st c p payload)) = messageListeners st"
  "closeListeners (fst (onServiceMessage ch st c p payload)) = closeListeners st"
  "started (fst (onServiceMessage ch st c p payload)) = started st"
  "closedPorts (fst (onServiceMessage ch st c p payload)) = closedPorts st"
  by (simp_all add: onServiceMessage_def Let_def onRequest_frame onEvent_frame split: sum.splits)

lemma dropped_fields [simp]:
  "clientPorts (fst (dropped r)) = clientPorts (fst r)"
  "requestHandlers (fst (dropped r)) = requestHandlers (fst r)"
  "eventHandlers (fst (dropped r)) = eventHandlers (fst r)"
  "logged (fst (dropped r)) = logged (fst r)"
  "posted (fst (dropped r)) = posted (fst r)"
  "messageListeners (fst (dropped r)) = messageListeners (fst r)"
  "closeListeners (fst (dropped r)) = closeListeners (fst r)"
  "started (fst (dropped r)) = started (fst r)"
  "closedPorts (fst (dropped r)) = closedPorts (fst r)"
  "calls (fst (dropped r)) = calls (fst r)"
  by (cases r rule: dropped.cases; simp)+

lemma onFailure_fields [simp]:
  "clientPorts (fst (onFailure r)) = clientPorts (fst r)"
  "requestHandlers (fst (onFailure r)) = requestHandlers (fst r)"
  "eventHandlers (fst (onFailure r)) = eventHandlers (fst r)"
  "posted (fst (onFailure r)) = posted (fst r)"
  "messageListeners (fst (onFailure r)) = messageListeners (fst r)"
  "closeListeners (fst (onFailure r)) = closeListeners (fst r)"
  "started (fst (onFailure r)) = started (fst r)"
  "closedPorts (fst (onFailure r)) = closedPorts (fst r)"
  "calls (fst (onFailure r)) = calls (fst r)"
  by (cases r rule: onFailure.cases; simp)+

lemma settled_fields [simp]:
  "clientPorts (fst (settled l r)) = clientPorts (fst r)"
  "requestHandlers (fst (settled l r)) = requestHandlers (fst r)"
  "eventHandlers (fst (settled l r)) = eventHandlers (fst r)"
  "posted (fst (settled l r)) = posted (fst r)"
  "messageListeners (fst (settled l r)) = messageListeners (fst r)"
  "closeListeners (fst (settled l r)) = closeListeners (fst r)"
  "started (fst (settled l r)) = started (fst r)"
  "closedPorts (fst (settled l r)) = closedPorts (fst r)"
  "calls (fst (settled l r)) = calls (fst r)"
  by (cases l; simp)+

lemma settled_Fulfilled [simp]: "settled l (st, Fulfilled v) = (st, Completed)"
  by (cases l) simp_all

lemma settled_snd_Fulfilled:
  assumes "snd r = Fulfilled v"
  shows "snd (settled l r) = Completed"
  using assms by (cases r; cases l) simp_all

subsection \<open>The listeners that the router attaches\<close>

lemma onServiceClientPort_listeners:
  "messageListeners (fst (onServiceClientPort st clientId port)) = messageListeners st \<or>
   (\<exists>p. stringifiable clientId \<and>
      messageListeners (fst (onServiceClientPort st clientId port)) =
        messageListeners st @ [(p, clientId)])"
  by (cases "toString clientId")
    (auto simp add: onServiceClientPort_def Let_def stringifiable_def split: sum.splits option.splits)

lemma onMessage_listeners:
  assumes "x \<in> set (messageListeners (fst (onMessage ch st port message)))"
  shows "x \<in> set (messageListeners st) \<or> stringifiable (snd x)"
proof -
  have b: "messageListeners (fst (case r of (st2, Inl e) \<Rightarrow> (st2, Uncaught e)
                          | (st2, Inr _) \<Rightarrow> (st2, Completed))) = messageListeners (fst r)"
    for r :: "state \<times> unit result"
    by (simp split: prod.splits sum.splits)
  show ?thesis
  proof (cases "\<not> nullish (envelopeOf (data message)) \<and>
      UPMServiceNewClient ch \<noteq> UPMServiceMessage ch \<and>
      propOf (envelopeOf (data message)) ''channel'' = JStr (UPMServiceNewClient ch) \<and>
      \<not> nullish (propOf (envelopeOf (data message)) ''payload'')")
    case True
    let ?c = "propOf (propOf (envelopeOf (data message)) ''payload'') ''clientId''"
    let ?st1 = "logInfo ''Message received on utilityProcess'' [data message] st"
    let ?p = "case ports message of [] \<Rightarrow> None | p # _ \<Rightarrow> Some p"
    have "messageListeners (fst (onMessage ch st port message)) =
        messageListeners (fst (onServiceClientPort ?st1 ?c ?p))"
      using True by (simp add: onMessage_def Let_def getProp_def b)
    then show ?thesis
      using assms onServiceClientPort_listeners [of ?st1 ?c ?p] by auto
  next
    case False
    then have "messageListeners (fst (onMessage ch st port message)) = messageListeners st"
      by (auto simp add: onMessage_def Let_def getProp_def onServiceMessage_frame split: sum.splits)
    then show ?thesis using assms by simp
  qed
qed

lemma clientPortMessage_listeners:
  "messageListeners (fst (clientPortMessage ch st clientId port ev)) = messageListeners st"
  by (simp add: clientPortMessage_def Let_def onServiceMessage_frame split: sum.splits)

lemma foldl_clientPortClose_others:
  "closedPorts (foldl clientPortClose st cs) = closedPorts st"
  "closeListeners (foldl clientPortClose st cs) = closeListeners st"
  "messageListeners (foldl clientPortClose st cs) = messageListeners st"
  by (induction cs arbitrary: st) (simp_all add: clientPortClose_def)

lemma portClose_listeners:
  "messageListeners (portClose st port) = messageListeners st"
  by (simp add: portClose_def foldl_clientPortClose_others)

lemma reachable_listeners_stringifiable:
  assumes "reachable ch st" and "(p, c) \<in> set (messageListeners st)"
  shows "stringifiable c"
  using assms
proof (induction arbitrary: p c rule: reachable.induct)
  case reach_init
  then show ?case by (simp add: init_def)
next
  case (reach_addRequestHandler st type handler)
  then show ?case by (simp add: addRequestHandler_def Let_def)
next
  case (reach_addEventHandler st handler)
  then show ?case by (simp add: addEventHandler_def Let_def)
next
  case (reach_deliver st l ev)
  show ?case
  proof (cases l)
    case ProcessListener
    then show ?thesis
      using reach_deliver.prems reach_deliver.IH onMessage_listeners [of "(p, c)" ch st processPort ev]
      by auto
  next
    case (ClientListener port clientId)
    then show ?thesis
      using reach_deliver.prems reach_deliver.IH by (simp add: clientPortMessage_listeners)
  qed
next
  case (reach_portClose st port)
  then show ?case by (simp add: portClose_listeners)
qed

lemma attached_stringifiable:
  assumes "reachable ch st" and "attached st l"
  obtains c where "toString (listenerClientId l) = Inr c"
proof (cases l)
  case ProcessListener
  then show ?thesis using that by simp
next
  case (ClientListener port clientId)
  then have "stringifiable clientId"
    using assms reachable_listeners_stringifiable by simp
  then show ?thesis using that ClientListener by (auto simp add: stringifiable_iff)
qed

text \<open>
  A listener that the router has attached, called with a service message, calls
  \<open>onServiceMessage\<close> after one log line, with its client identifier, its port and the
  payload.
\<close>

lemma deliver_service:
  assumes "reachable ch st" and "attached st l" and "serviceMessage ch ev payload"
  obtains line where
    "deliver ch st l ev =
       settled l (onServiceMessage ch (st\<lparr>logged := logged st @ [line]\<rparr>)
                    (listenerClientId l) (listenerPort l) payload)"
proof (cases l)
  case ProcessListener
  have "deliver ch st l ev =
       settled l (onServiceMessage ch
          (st\<lparr>logged := logged st @ [Log Info ''Message received on utilityProcess'' [data ev]]\<rparr>)
          (listenerClientId l) (listenerPort l) payload)"
    using assms(3) ProcessListener
    by (simp add: serviceMessage_def onMessage_def Let_def logInfo_def)
  then show ?thesis by (rule that)
next
  case (ClientListener port clientId)
  from attached_stringifiable [OF assms(1,2)] ClientListener
  obtain c where c: "toString clientId = Inr c" by auto
  have "deliver ch st l ev =
       settled l (onServiceMessage ch
          (st\<lparr>logged := logged st @
             [Log Info (''Message received on client port ('' @ c @ '')'') [envelopeOf (data ev)]]\<rparr>)
          (listenerClientId l) (listenerPort l) payload)"
    using assms(3) ClientListener c
    by (simp add: serviceMessage_def clientPortMessage_def Let_def logInfo_def)
  then show ?thesis by (rule that)
qed

subsection \<open>Requests\<close>

lemma requestTry_value:
  assumes "getRequestHandler (requestHandlers st) type = Some handler"
    and "spread args = Inr as"
    and "await (handler type messageId as) = Value result"
  shows "requestTry ch st port type messageId args =
     (postMessage port (responseMessage ch type messageId result)
        (st\<lparr>calls := calls st @ [RequestCall type messageId as]\<rparr>), TryDone)"
proof -
  from assms(1) obtain t where "type = JStr t" by (rule getRequestHandler_Some)
  then show ?thesis using assms by (simp add: requestTry_def)
qed

lemma onRequest_value:
  assumes "getRequestHandler (requestHandlers st) type = Some handler"
    and "spread args = Inr as"
    and "await (handler type messageId as) = Value result"
  shows "onRequest ch st port type messageId args =
     (postMessage port (responseMessage ch type messageId result)
        (st\<lparr>calls := calls st @ [RequestCall type messageId as]\<rparr>),
      Fulfilled JUndefined)"
  by (simp add: onRequest_def requestTry_value [OF assms])

lemma responseMessage_props:
  "propOf (responseMessage ch type messageId result) ''channel'' = JStr (UPMServiceMessage ch)"
  "propOf (propOf (responseMessage ch type messageId result) ''payload'') ''kind'' = MessageKind_Response"
  "propOf (propOf (responseMessage ch type messageId result) ''payload'') ''type'' = type"
  "propOf (propOf (responseMessage ch type messageId result) ''payload'') ''messageId'' = messageId"
  "propOf (propOf (responseMessage ch type messageId result) ''payload'') ''result'' = result"
  "propOf (propOf (responseMessage ch type messageId result) ''payload'') ''error'' = JUndefined"
  by (simp_all add: responseMessage_def)

lemma onServiceMessage_request:
  assumes "toString clientId = Inr c"
    and "\<not> nullish payload"
    and "propOf payload ''kind'' = MessageKind_Request"
  shows "onServiceMessage ch st clientId port payload =
     onRequest ch (logInfo (''onServiceMessage from (clientId='' @ c @ '')'') [payload] st) port
       (propOf payload ''type'') (propOf payload ''messageId'') (propOf payload ''args'')"
  using assms by (simp add: onServiceMessage_def Let_def)

lemma onServiceMessage_request_value:
  assumes "toString clientId = Inr c"
    and "\<not> nullish payload"
    and "propOf payload ''kind'' = MessageKind_Request"
    and "getRequestHandler (requestHandlers st) (propOf payload ''type'') = Some handler"
    and "spread (propOf payload ''args'') = Inr as"
    and "await (handler (propOf payload ''type'') (propOf payload ''messageId'') as) = Value result"
  shows "posted (fst (onServiceMessage ch st clientId port payload)) =
       posted st @ [(port, responseMessage ch (propOf payload ''type'')
                             (propOf payload ''messageId'') result)]"
    and "snd (onServiceMessage ch st clientId port payload) = Fulfilled JUndefined"
  using assms(4-6)
  by (simp_all add: onServiceMessage_request [OF assms(1-3)]
        onRequest_value [where handler = handler and as = as and result = result])

text \<open>
  C1, for a request with arguments. A request whose \<^verbatim>\<open>args\<close> can be spread (an array,
  as the envelope declares it), delivered to a listener that the router has attached, whose type has a
  registered handler, which is called with the spread arguments and whose awaited result is
  a value: the router posts exactly one message, on the port of the listener, on the service
  channel, whose payload has kind \<^verbatim>\<open>"response"\<close>, the type and the messageId of the
  request, the handler's value as result and no error.
\<close>

theorem request_reply:
  assumes "reachable ch st" and "attached st l"
    and "serviceMessage ch ev payload"
    and "propOf payload ''kind'' = MessageKind_Request"
    and "getRequestHandler (requestHandlers st) (propOf payload ''type'') = Some handler"
    and "spread (propOf payload ''args'') = Inr as"
    and "await (handler (propOf payload ''type'') (propOf payload ''messageId'') as) = Value result"
  shows "\<exists>reply. posted (fst (deliver ch st l ev)) = posted st @ [(listenerPort l, reply)]
     \<and> propOf reply ''channel'' = JStr (UPMServiceMessage ch)
     \<and> propOf (propOf reply ''payload'') ''kind'' = MessageKind_Response
     \<and> propOf (propOf reply ''payload'') ''type'' = propOf payload ''type''
     \<and> propOf (propOf reply ''payload'') ''messageId'' = propOf payload ''messageId''
     \<and> propOf (propOf reply ''payload'') ''result'' = result
     \<and> propOf (propOf reply ''payload'') ''error'' = JUndefined
     \<and> snd (deliver ch st l ev) = Completed"
proof -
  let ?reply = "responseMessage ch (propOf payload ''type'') (propOf payload ''messageId'') result"
  from deliver_service [OF assms(1-3)] obtain line where
    d: "deliver ch st l ev =
       settled l (onServiceMessage ch (st\<lparr>logged := logged st @ [line]\<rparr>)
                    (listenerClientId l) (listenerPort l) payload)"
    by blast
  from attached_stringifiable [OF assms(1,2)] obtain c where
    c: "toString (listenerClientId l) = Inr c" by blast
  let ?st1 = "st\<lparr>logged := logged st @ [line]\<rparr>"
  have n: "\<not> nullish payload" using assms(3) by (simp add: serviceMessage_def)
  have h: "getRequestHandler (requestHandlers ?st1) (propOf payload ''type'') = Some handler"
    using assms(5) by simp
  note r = onServiceMessage_request_value [OF c n assms(4) h assms(6,7), of ch "listenerPort l"]
  have "posted (fst (deliver ch st l ev)) = posted st @ [(listenerPort l, ?reply)]"
    using r(1) by (simp add: d)
  moreover have "snd (deliver ch st l ev) = Completed"
    using r(2) by (simp add: d settled_snd_Fulfilled)
  ultimately show ?thesis
    using responseMessage_props [of ch "propOf payload ''type''" "propOf payload ''messageId''" result]
    by blast
qed


theorem request_reply_witness:
  "reachable channels (fst (deliver channels (addRequestHandler ''heartbeat'' heartbeat init)
      ProcessListener \<lparr>data = newClientEnvelope ''c1'', ports = [7]\<rparr>)) \<and>
   attached (fst (deliver channels (addRequestHandler ''heartbeat'' heartbeat init)
      ProcessListener \<lparr>data = newClientEnvelope ''c1'', ports = [7]\<rparr>))
     (ClientListener 7 (JStr ''c1'')) \<and>
   (\<exists>reply.
      posted (fst (deliver channels
        (fst (deliver channels (addRequestHandler ''heartbeat'' heartbeat init)
           ProcessListener \<lparr>data = newClientEnvelope ''c1'', ports = [7]\<rparr>))
        (ClientListener 7 (JStr ''c1''))
        \<lparr>data = serviceEnvelope heartbeatRequest, ports = []\<rparr>)) = [(7, reply)] \<and>
      propOf (propOf reply ''payload'') ''kind'' = JStr ''response'' \<and>
      propOf (propOf reply ''payload'') ''type'' = JStr ''heartbeat'' \<and>
      propOf (propOf reply ''payload'') ''messageId'' = JStr ''m1'' \<and>
      propOf (propOf reply ''payload'') ''result'' = JBool True)"
proof -
  let ?base = "addRequestHandler ''heartbeat'' heartbeat init"
  let ?st = "fst (deliver channels ?base ProcessListener
      \<lparr>data = newClientEnvelope ''c1'', ports = [7]\<rparr>)"
  let ?ev = "\<lparr>data = serviceEnvelope heartbeatRequest, ports = []\<rparr>"
  have c0: "closedPorts ?base = []"
    by (simp add: addRequestHandler_def init_def Let_def)
  have r: "reachable channels ?st"
    by (intro reach_deliver reach_addRequestHandler reach_init) (simp_all add: c0)
  have st: "messageListeners ?st = [(7, JStr ''c1'')]" "posted ?st = []"
    "requestHandlers ?st ''heartbeat'' = Some heartbeat"
    by (simp_all add: onMessage_def onServiceClientPort_def envelopeOf_def getProp_def
          newClientEnvelope_def channels_def addRequestHandler_def init_def Let_def logInfo_def)
  have a: "attached ?st (ClientListener 7 (JStr ''c1''))"
    using st(1) by simp
  have h3: "serviceMessage channels ?ev heartbeatRequest"
    and h4: "propOf heartbeatRequest ''kind'' = MessageKind_Request"
    and h6: "spread (propOf heartbeatRequest ''args'') = Inr [JNum 12]"
    and h7: "await (heartbeat (propOf heartbeatRequest ''type'')
                 (propOf heartbeatRequest ''messageId'') [JNum 12]) = Value (JBool True)"
    by (simp_all add: serviceMessage_def envelopeOf_def serviceEnvelope_def channels_def
          heartbeatRequest_def MessageKind_Request_def heartbeat_def)
  have h5: "getRequestHandler (requestHandlers ?st) (propOf heartbeatRequest ''type'') = Some heartbeat"
    using st(3) by (simp add: heartbeatRequest_def)
  show ?thesis
    using request_reply [OF r a h3 h4 h5 h6 h7] r a st(2)
    by (auto simp add: heartbeatRequest_def MessageKind_Response_def)
qed

text \<open>
  C1, for a request without \<^verbatim>\<open>args\<close>, which the envelope allows. The reply is not
  the handler's value: the \<^verbatim>\<open>"heartbeat"\<close> handler is
  registered and returns \<^verbatim>\<open>true\<close> whatever its arguments, but spreading \<^verbatim>\<open>undefined\<close>
  throws before the handler is called, and the router posts an error reply, with result
  \<^verbatim>\<open>null\<close>.
\<close>

theorem request_without_args_counterexample:
  "getRequestHandler (requestHandlers (addRequestHandler ''heartbeat'' heartbeat init))
     (propOf heartbeatRequestNoArgs ''type'') = Some heartbeat \<and>
   await (heartbeat (JStr ''heartbeat'') (JStr ''m1'') []) = Value (JBool True) \<and>
   posted (fst (deliver channels (addRequestHandler ''heartbeat'' heartbeat init) ProcessListener
      \<lparr>data = serviceEnvelope heartbeatRequestNoArgs, ports = []\<rparr>)) =
     [(processPort,
       JObj [(''channel'', JStr ''UPMServiceMessage''),
             (''payload'',
              JObj [(''type'', JStr ''heartbeat''), (''kind'', JStr ''response''),
                    (''messageId'', JStr ''m1''), (''result'', JNull),
                    (''error'',
                     JStr ''Spread syntax requires ...iterable[Symbol.iterator] to be a function'')])])] \<and>
   calls (fst (deliver channels (addRequestHandler ''heartbeat'' heartbeat init) ProcessListener
      \<lparr>data = serviceEnvelope heartbeatRequestNoArgs, ports = []\<rparr>)) = []"
  by (simp add: onMessage_def onServiceMessage_def onRequest_def requestTry_def requestCatch_def
        getProp_def envelopeOf_def serviceEnvelope_def heartbeatRequestNoArgs_def channels_def
        addRequestHandler_def init_def heartbeat_def Let_def errorMessage_def
        MessageKind_Request_def MessageKind_Response_def TypeError_def logInfo_def logError_def
        postMessage_def)

text \<open>
  What the router does when the handler of a request throws, when its promise is
  rejected, and when no handler is registered for the type: with a thrown value other
  than \<^verbatim>\<open>undefined\<close> and \<^verbatim>\<open>null\<close>, whose message or string form can be read, it posts
  one error reply; with \<^verbatim>\<open>undefined\<close> or \<^verbatim>\<open>null\<close>, the \<^verbatim>\<open>catch\<close> block itself throws,
  and it posts nothing.
\<close>

lemma requestCatch_reply:
  assumes "\<not> nullish err"
    and "(if nullish (propOf err ''message'') then map_sum id JStr (callToString err)
          else Inr (propOf err ''message'')) = Inr error"
  shows "requestCatch ch st port type messageId err =
     (postMessage port (errorMessage ch type messageId error)
        (logError ''Unable to handle message'' [err] st),
      Fulfilled JUndefined)"
  using assms by (simp add: requestCatch_def getProp_def Let_def)

lemma requestTry_no_handler:
  assumes "getRequestHandler (requestHandlers st) type = None" and "toString type = Inr t"
  shows "requestTry ch st port type messageId args =
     (st, TryThrew (AssertError (''Unknown request handler ('' @ t @ '')'')))"
  using assms by (simp add: requestTry_def)

lemma requestTry_raise:
  assumes "getRequestHandler (requestHandlers st) type = Some handler"
    and "spread args = Inr as"
    and "await (handler type messageId as) = Raise err"
  shows "requestTry ch st port type messageId args =
     (st\<lparr>calls := calls st @ [RequestCall type messageId as]\<rparr>, TryThrew err)"
proof -
  from assms(1) obtain t where "type = JStr t" by (rule getRequestHandler_Some)
  then show ?thesis using assms by (simp add: requestTry_def)
qed

lemma errorMessage_props:
  "propOf (errorMessage ch type messageId error) ''channel'' = JStr (UPMServiceMessage ch)"
  "propOf (propOf (errorMessage ch type messageId error) ''payload'') ''kind'' = MessageKind_Response"
  "propOf (propOf (errorMessage ch type messageId error) ''payload'') ''type'' = type"
  "propOf (propOf (errorMessage ch type messageId error) ''payload'') ''messageId'' = messageId"
  "propOf (propOf (errorMessage ch type messageId error) ''payload'') ''result'' = JNull"
  "propOf (propOf (errorMessage ch type messageId error) ''payload'') ''error'' = error"
  by (simp_all add: errorMessage_def)

lemma request_throw_reply:
  assumes "toString clientId = Inr c"
    and "\<not> nullish payload"
    and "propOf payload ''kind'' = MessageKind_Request"
    and "getRequestHandler (requestHandlers st) (propOf payload ''type'') = Some handler"
    and "spread (propOf payload ''args'') = Inr as"
    and "await (handler (propOf payload ''type'') (propOf payload ''messageId'') as) = Raise err"
    and "\<not> nullish err"
    and "(if nullish (propOf err ''message'') then map_sum id JStr (callToString err)
          else Inr (propOf err ''message'')) = Inr error"
  shows "posted (fst (onServiceMessage ch st clientId port payload)) =
       posted st @ [(port, errorMessage ch (propOf payload ''type'') (propOf payload ''messageId'')
                             error)]
     \<and> snd (onServiceMessage ch st clientId port payload) = Fulfilled JUndefined"
  using assms(4-6)
  by (simp add: onServiceMessage_request [OF assms(1-3)] onRequest_def
        requestTry_raise [where handler = handler and as = as and err = err]
        requestCatch_reply [OF assms(7,8)])

lemma request_no_handler_reply:
  assumes "toString clientId = Inr c"
    and "\<not> nullish payload"
    and "propOf payload ''kind'' = MessageKind_Request"
    and "getRequestHandler (requestHandlers st) (propOf payload ''type'') = None"
    and "toString (propOf payload ''type'') = Inr t"
  shows "posted (fst (onServiceMessage ch st clientId port payload)) =
       posted st @ [(port, errorMessage ch (propOf payload ''type'') (propOf payload ''messageId'')
          (JStr (''Unknown request handler ('' @ t @ '')'')))]
     \<and> snd (onServiceMessage ch st clientId port payload) = Fulfilled JUndefined"
proof -
  have "requestCatch ch s port type messageId (AssertError m) =
     (postMessage port (errorMessage ch type messageId (JStr m))
        (logError ''Unable to handle message'' [AssertError m] s), Fulfilled JUndefined)"
    for s type messageId m
    by (rule requestCatch_reply) (simp_all add: AssertError_def)
  then show ?thesis
    using assms(4,5)
    by (simp add: onServiceMessage_request [OF assms(1-3)] onRequest_def requestTry_no_handler)
qed

lemma request_throw_nullish:
  assumes "toString clientId = Inr c"
    and "\<not> nullish payload"
    and "propOf payload ''kind'' = MessageKind_Request"
    and "getRequestHandler (requestHandlers st) (propOf payload ''type'') = Some handler"
    and "spread (propOf payload ''args'') = Inr as"
    and "await (handler (propOf payload ''type'') (propOf payload ''messageId'') as) = Raise err"
    and "nullish err"
  shows "posted (fst (onServiceMessage ch st clientId port payload)) = posted st
     \<and> (\<exists>e. snd (onServiceMessage ch st clientId port payload) = Rejected e)"
  using assms(4-7)
  by (simp add: onServiceMessage_request [OF assms(1-3)] onRequest_def
        requestTry_raise [where handler = handler and as = as and err = err]
        requestCatch_def getProp_def)

text \<open>
  C2. The claim is that every request whose handler throws gets exactly one error reply
  and that no error propagates. The handler here rejects with \<^verbatim>\<open>undefined\<close>, as
  \<^verbatim>\<open>Promise.reject()\<close> does: the router posts nothing, and the promise that \<open>onMessage\<close>
  dropped is rejected with the \<^verbatim>\<open>TypeError\<close> of \<^verbatim>\<open>err.message\<close>.
\<close>

theorem request_rejected_with_undefined_gets_no_reply:
  "posted (fst (onMessage channels (addRequestHandler ''heartbeat'' rejectsWithUndefined init)
      processPort \<lparr>data = serviceEnvelope heartbeatRequest, ports = []\<rparr>)) = [] \<and>
   snd (onMessage channels (addRequestHandler ''heartbeat'' rejectsWithUndefined init)
      processPort \<lparr>data = serviceEnvelope heartbeatRequest, ports = []\<rparr>) =
     UnhandledRejection (TypeError ''Cannot read properties of undefined (reading message)'')"
  by (simp add: onMessage_def onServiceMessage_def onRequest_def requestTry_def requestCatch_def
        getProp_def envelopeOf_def serviceEnvelope_def heartbeatRequest_def channels_def
        addRequestHandler_def init_def rejectsWithUndefined_def Let_def
        MessageKind_Request_def TypeError_def logInfo_def logError_def)

subsection \<open>Events\<close>

lemma upt_head: "[i..<Suc (i + n)] = i # [Suc i..<Suc (i + n)]"
  by (simp add: upt_conv_Cons del: upt_Suc)

lemma eventLoop_pass:
  assumes "\<forall>h\<in>set pre. \<exists>v. await (h c p d) = Value v \<and> v \<noteq> JBool True"
  shows "eventLoop (pre @ hs) i c p d =
     (case eventLoop hs (i + length pre) c p d of (is, r) \<Rightarrow> ([i..<i + length pre] @ is, r))"
  using assms
proof (induction pre arbitrary: i)
  case Nil
  then show ?case by simp
next
  case (Cons h pre)
  from Cons.prems obtain v where v: "await (h c p d) = Value v" "v \<noteq> JBool True"
    by auto
  have rest: "\<forall>h\<in>set pre. \<exists>v. await (h c p d) = Value v \<and> v \<noteq> JBool True"
    using Cons.prems by simp
  show ?case
    using v Cons.IH [OF rest, of "Suc i"] by (simp add: upt_head del: upt_Suc split: prod.splits)
qed

lemma nth_split:
  assumes "k < length hs" and "\<forall>j<k. P (hs ! j)"
  shows "hs = take k hs @ hs ! k # drop (Suc k) hs \<and> (\<forall>h\<in>set (take k hs). P h) \<and> length (take k hs) = k"
proof -
  have "\<forall>h\<in>set (take k hs). P h"
  proof
    fix h assume "h \<in> set (take k hs)"
    then obtain j where "j < length (take k hs)" "take k hs ! j = h"
      by (auto simp: in_set_conv_nth)
    then show "P h" using assms by auto
  qed
  then show ?thesis using assms(1) by (simp add: id_take_nth_drop [symmetric])
qed

lemma eventLoop_first_true:
  assumes "k < length hs"
    and "await ((hs ! k) c p d) = Value (JBool True)"
    and "\<forall>j<k. \<exists>v. await ((hs ! j) c p d) = Value v \<and> v \<noteq> JBool True"
  shows "eventLoop hs i c p d = ([i..<i + Suc k], Handled)"
proof -
  let ?P = "\<lambda>h. \<exists>v. await (h c p d) = Value v \<and> v \<noteq> JBool True"
  from nth_split [of k hs ?P, OF assms(1,3)]
  have s: "hs = take k hs @ hs ! k # drop (Suc k) hs"
    and pre: "\<forall>h\<in>set (take k hs). ?P h" and len: "length (take k hs) = k"
    by blast+
  have "eventLoop (take k hs @ hs ! k # drop (Suc k) hs) i c p d = ([i..<i + k] @ [i + k], Handled)"
    using eventLoop_pass [OF pre, of "hs ! k # drop (Suc k) hs" i] assms(2) len by simp
  then show ?thesis using s by simp
qed


lemma eventLoop_prefix:
  "\<exists>n\<le>length hs. fst (eventLoop hs i c p d) = [i..<i + n]"
proof (induction hs arbitrary: i)
  case Nil
  then show ?case by simp
next
  case (Cons h hs)
  show ?case
  proof (cases "await (h c p d)")
    case (Value v)
    show ?thesis
    proof (cases "v = JBool True")
      case True
      then have "fst (eventLoop (h # hs) i c p d) = [i..<i + 1]" using Value by simp
      then show ?thesis by (intro exI [of _ 1]) simp
    next
      case False
      from Cons.IH [of "Suc i"] obtain n where n: "n \<le> length hs"
        "fst (eventLoop hs (Suc i) c p d) = [Suc i..<Suc i + n]" by blast
      have "fst (eventLoop (h # hs) i c p d) = i # fst (eventLoop hs (Suc i) c p d)"
        using Value False by (simp split: prod.splits)
      then have "fst (eventLoop (h # hs) i c p d) = [i..<i + Suc n]"
        using n(2) by (simp add: upt_head del: upt_Suc)
      then show ?thesis using n(1) by (intro exI [of _ "Suc n"]) (simp del: upt_Suc)
    qed
  next
    case (Raise e)
    then have "fst (eventLoop (h # hs) i c p d) = [i..<i + 1]" by simp
    then show ?thesis by (intro exI [of _ 1]) simp
  next
    case Never
    then have "fst (eventLoop (h # hs) i c p d) = [i..<i + 1]" by simp
    then show ?thesis by (intro exI [of _ 1]) simp
  qed
qed

lemma onEvent_handled:
  assumes "eventLoop (eventHandlers st) 0 c p d = (is, Handled)" and "toString m = Inr ms"
  shows "onEvent st c p m d =
     (logInfo (''Successfully handled ('' @ ms @ '') event'') []
        (st\<lparr>calls := calls st @ map (\<lambda>i. EventCall i c p d) is\<rparr>),
      Fulfilled JUndefined)"
  using assms by (simp add: onEvent_def)


lemma onServiceMessage_event:
  assumes "toString clientId = Inr c"
    and "\<not> nullish payload" and "propOf payload ''kind'' = MessageKind_Event"
  shows "onServiceMessage ch st clientId port payload =
     onEvent (logInfo (''onServiceMessage from (clientId='' @ c @ '')'') [payload] st)
       clientId port (propOf payload ''messageId'') (propOf payload ''eventData'')"
  using assms
  by (simp add: onServiceMessage_def Let_def MessageKind_Event_def MessageKind_Request_def)

text \<open>
  An event delivered to a listener that the router has attached goes to the event branch,
  after two log lines.
\<close>

lemma deliver_event:
  assumes "reachable ch st" and "attached st l"
    and "serviceMessage ch ev payload" and "propOf payload ''kind'' = MessageKind_Event"
  obtains line1 line2 where
    "deliver ch st l ev =
       settled l (onEvent (st\<lparr>logged := logged st @ [line1, line2]\<rparr>)
                    (listenerClientId l) (listenerPort l)
                    (propOf payload ''messageId'') (propOf payload ''eventData''))"
proof -
  from deliver_service [OF assms(1-3)] obtain line where
    d: "deliver ch st l ev =
       settled l (onServiceMessage ch (st\<lparr>logged := logged st @ [line]\<rparr>)
                    (listenerClientId l) (listenerPort l) payload)"
    by blast
  from attached_stringifiable [OF assms(1,2)] obtain c where
    c: "toString (listenerClientId l) = Inr c" by blast
  have n: "\<not> nullish payload" using assms(3) by (simp add: serviceMessage_def)
  have "deliver ch st l ev =
       settled l (onEvent
          (st\<lparr>logged := logged st @
             [line, Log Info (''onServiceMessage from (clientId='' @ c @ '')'') [payload]]\<rparr>)
          (listenerClientId l) (listenerPort l)
          (propOf payload ''messageId'') (propOf payload ''eventData''))"
    by (simp add: d onServiceMessage_event [OF c n assms(4)] logInfo_def)
  then show ?thesis by (rule that)
qed

text \<open>
  C3. An event delivered to a listener that the router has attached: the router posts
  nothing; the handlers it calls, with the client identifier and the port of the listener,
  are an initial segment of the registered ones, in the order of their registration; and
  when the handler at position \<open>k\<close> is the first whose awaited result is \<^verbatim>\<open>true\<close>, the
  handlers before it having returned other values, exactly the handlers at positions 0 to
  \<open>k\<close> are called, and the listener is done when the messageId of the event can be
  written to the log.
\<close>

theorem event_dispatch_stops_at_first_true:
  assumes "reachable ch st" and "attached st l"
    and "serviceMessage ch ev payload" and "propOf payload ''kind'' = MessageKind_Event"
  shows "posted (fst (deliver ch st l ev)) = posted st \<and>
     (\<exists>n\<le>length (eventHandlers st).
        calls (fst (deliver ch st l ev)) =
          calls st @ map (\<lambda>i. EventCall i (listenerClientId l) (listenerPort l)
                                 (propOf payload ''eventData'')) [0..<n]) \<and>
     (\<forall>k<length (eventHandlers st).
        await ((eventHandlers st ! k) (listenerClientId l) (listenerPort l)
                 (propOf payload ''eventData'')) = Value (JBool True) \<longrightarrow>
        (\<forall>j<k. \<exists>v. await ((eventHandlers st ! j) (listenerClientId l) (listenerPort l)
                          (propOf payload ''eventData'')) = Value v \<and> v \<noteq> JBool True) \<longrightarrow>
        calls (fst (deliver ch st l ev)) =
          calls st @ map (\<lambda>i. EventCall i (listenerClientId l) (listenerPort l)
                                 (propOf payload ''eventData'')) [0..<Suc k] \<and>
        (stringifiable (propOf payload ''messageId'') \<longrightarrow> snd (deliver ch st l ev) = Completed))"
proof -
  let ?c = "listenerClientId l" and ?p = "listenerPort l"
  let ?d = "propOf payload ''eventData''" and ?m = "propOf payload ''messageId''"
  from deliver_event [OF assms] obtain line1 line2 where
    d: "deliver ch st l ev =
       settled l (onEvent (st\<lparr>logged := logged st @ [line1, line2]\<rparr>) ?c ?p ?m ?d)"
    by blast
  let ?s = "st\<lparr>logged := logged st @ [line1, line2]\<rparr>"
  have a: "posted (fst (deliver ch st l ev)) = posted st"
    by (simp add: d onEvent_frame)
  have cl: "calls (fst (deliver ch st l ev)) =
      calls st @ map (\<lambda>i. EventCall i ?c ?p ?d) (fst (eventLoop (eventHandlers st) 0 ?c ?p ?d))"
    by (simp add: d onEvent_calls)
  from eventLoop_prefix [of "eventHandlers st" 0 ?c ?p ?d]
  obtain n where n: "n \<le> length (eventHandlers st)"
    "fst (eventLoop (eventHandlers st) 0 ?c ?p ?d) = [0..<n]" by auto
  have b: "calls (fst (deliver ch st l ev)) = calls st @ map (\<lambda>i. EventCall i ?c ?p ?d) [0..<n]"
    using n(2) by (simp add: cl)
  have c: "calls (fst (deliver ch st l ev)) =
          calls st @ map (\<lambda>i. EventCall i ?c ?p ?d) [0..<Suc k] \<and>
        (stringifiable ?m \<longrightarrow> snd (deliver ch st l ev) = Completed)"
    if "k < length (eventHandlers st)"
      and "await ((eventHandlers st ! k) ?c ?p ?d) = Value (JBool True)"
      and "\<forall>j<k. \<exists>v. await ((eventHandlers st ! j) ?c ?p ?d) = Value v \<and> v \<noteq> JBool True"
    for k
  proof -
    have e: "eventLoop (eventHandlers st) 0 ?c ?p ?d = ([0..<0 + Suc k], Handled)"
      using that by (rule eventLoop_first_true)
    have "snd (deliver ch st l ev) = Completed" if "stringifiable ?m"
    proof -
      from that obtain ms where ms: "toString ?m = Inr ms"
        by (auto simp add: stringifiable_iff)
      have "eventLoop (eventHandlers ?s) 0 ?c ?p ?d = ([0..<0 + Suc k], Handled)"
        using e by simp
      from onEvent_handled [OF this ms] show ?thesis
        by (simp add: d del: upt_Suc)
    qed
    then show ?thesis using e by (simp add: cl del: upt_Suc)
  qed
  from a b c n(1) show ?thesis by blast
qed

theorem event_dispatch_stops_at_first_true_witness:
  "reachable channels (addEventHandler throwsBoom (addEventHandler exampleEventHandler
      (addEventHandler returnsOne init))) \<and>
   serviceMessage channels \<lparr>data = serviceEnvelope tickEvent, ports = []\<rparr> tickEvent \<and>
   eventHandlers (addEventHandler throwsBoom (addEventHandler exampleEventHandler
      (addEventHandler returnsOne init))) = [returnsOne, exampleEventHandler, throwsBoom] \<and>
   calls (fst (deliver channels
      (addEventHandler throwsBoom (addEventHandler exampleEventHandler
         (addEventHandler returnsOne init)))
      ProcessListener \<lparr>data = serviceEnvelope tickEvent, ports = []\<rparr>)) =
     [EventCall 0 (JStr ''main'') processPort (JNum 5),
      EventCall 1 (JStr ''main'') processPort (JNum 5)] \<and>
   posted (fst (deliver channels
      (addEventHandler throwsBoom (addEventHandler exampleEventHandler
         (addEventHandler returnsOne init)))
      ProcessListener \<lparr>data = serviceEnvelope tickEvent, ports = []\<rparr>)) = [] \<and>
   snd (deliver channels
      (addEventHandler throwsBoom (addEventHandler exampleEventHandler
         (addEventHandler returnsOne init)))
      ProcessListener \<lparr>data = serviceEnvelope tickEvent, ports = []\<rparr>) = Completed"
proof -
  let ?st = "addEventHandler throwsBoom (addEventHandler exampleEventHandler
      (addEventHandler returnsOne init))"
  let ?ev = "\<lparr>data = serviceEnvelope tickEvent, ports = []\<rparr>"
  have r: "reachable channels ?st"
    by (intro reach_addEventHandler reach_init)
  have at: "attached ?st ProcessListener" by simp
  have hs: "eventHandlers ?st = [returnsOne, exampleEventHandler, throwsBoom]"
    and c: "calls ?st = []" and p: "posted ?st = []"
    by (simp_all add: addEventHandler_def init_def Let_def)
  have h1: "serviceMessage channels ?ev tickEvent"
    and h2: "propOf tickEvent ''kind'' = MessageKind_Event"
    and d: "propOf tickEvent ''eventData'' = JNum 5"
    and m: "stringifiable (propOf tickEvent ''messageId'')"
    by (simp_all add: serviceMessage_def envelopeOf_def serviceEnvelope_def channels_def
          tickEvent_def MessageKind_Event_def stringifiable_def)
  have k: "(1::nat) < length (eventHandlers ?st)"
    and t: "await ((eventHandlers ?st ! 1) (listenerClientId ProcessListener)
               (listenerPort ProcessListener) (propOf tickEvent ''eventData'')) = Value (JBool True)"
    and b: "\<forall>j<1::nat. \<exists>v. await ((eventHandlers ?st ! j) (listenerClientId ProcessListener)
               (listenerPort ProcessListener) (propOf tickEvent ''eventData'')) = Value v
               \<and> v \<noteq> JBool True"
    by (simp_all add: hs exampleEventHandler_def returnsOne_def)
  from event_dispatch_stops_at_first_true [OF r at h1 h2]
  have "posted (fst (deliver channels ?st ProcessListener ?ev)) = posted ?st"
    and "calls (fst (deliver channels ?st ProcessListener ?ev)) =
      calls ?st @ map (\<lambda>i. EventCall i (listenerClientId ProcessListener)
          (listenerPort ProcessListener) (propOf tickEvent ''eventData'')) [0..<Suc 1]"
    and "snd (deliver channels ?st ProcessListener ?ev) = Completed"
    using k t b m by blast+
  then show ?thesis using r h1 hs c p d by (simp add: upt_rec)
qed




text \<open>
  C9. Only the value \<^verbatim>\<open>true\<close> stops the loop: after handlers whose awaited results are
  truthy values other than \<^verbatim>\<open>true\<close>, the loop goes on with the remaining handlers, in
  order. The number 1 and a string that is not empty are such values.
\<close>

theorem truthy_result_does_not_stop:
  assumes "\<forall>h\<in>set pre. \<exists>v. await (h clientId port eventData) = Value v \<and> truthy v \<and> v \<noteq> JBool True"
  shows "eventLoop (pre @ hs) i clientId port eventData =
     (case eventLoop hs (i + length pre) clientId port eventData of
        (is, r) \<Rightarrow> ([i..<i + length pre] @ is, r))"
proof -
  have "\<forall>h\<in>set pre. \<exists>v. await (h clientId port eventData) = Value v \<and> v \<noteq> JBool True"
    using assms by blast
  then show ?thesis by (rule eventLoop_pass)
qed

theorem truthy_result_does_not_stop_witness:
  "truthy (JNum 1) \<and> truthy (JStr ''yes'') \<and>
   eventLoop ([returnsOne, returnsText] @ [exampleEventHandler, throwsBoom]) 0
     (JStr ''main'') processPort (JNum 5) = ([0, 1, 2], Handled)"
proof -
  have h: "\<forall>h\<in>set [returnsOne, returnsText].
      \<exists>v. await (h (JStr ''main'') processPort (JNum 5)) = Value v \<and> truthy v \<and> v \<noteq> JBool True"
    by (simp add: returnsOne_def returnsText_def)
  show ?thesis
    using truthy_result_does_not_stop [OF h, of "[exampleEventHandler, throwsBoom]" 0]
    by (simp add: exampleEventHandler_def upt_rec)
qed

subsection \<open>What the router does not recognise\<close>

lemma onServiceMessage_other_kind:
  assumes "toString clientId = Inr c"
    and "\<not> nullish payload"
    and "propOf payload ''kind'' \<noteq> MessageKind_Request"
    and "propOf payload ''kind'' \<noteq> MessageKind_Event"
  shows "onServiceMessage ch st clientId port payload =
     (case toString (propOf payload ''kind'') of
        Inl e \<Rightarrow>
          (st\<lparr>logged := logged st @
              [Log Info (''onServiceMessage from (clientId='' @ c @ '')'') [payload]]\<rparr>,
           Rejected e)
      | Inr k \<Rightarrow>
          (st\<lparr>logged := logged st @
              [Log Info (''onServiceMessage from (clientId='' @ c @ '')'') [payload],
               Log Error (''Message kind ('' @ k @ '') is invalid here'') []]\<rparr>,
           Fulfilled JUndefined))"
  using assms by (simp add: onServiceMessage_def Let_def logInfo_def logError_def split: sum.splits)

text \<open>
  C5. An envelope on the process port whose channel is neither of the two channels, an
  envelope on a client port whose channel is not the service channel, and a service
  message whose kind is neither \<^verbatim>\<open>"request"\<close> nor \<^verbatim>\<open>"event"\<close>: the router logs what it
  received and changes nothing else; it posts nothing, and the registries, the listeners
  and the ports are as before. When the channel or the kind can be converted to a string,
  a log line names it, and on a client port the assertion fails and the listener throws;
  when it cannot, the conversion throws in the place of that line or assertion, out of the
  listener or as the rejection of the promise of \<open>onServiceMessage\<close>.
\<close>

theorem unrecognized_dropped:
  "(\<not> nullish (envelopeOf (data ev)) \<longrightarrow>
    propOf (envelopeOf (data ev)) ''channel'' \<noteq> JStr (UPMServiceMessage ch) \<longrightarrow>
    propOf (envelopeOf (data ev)) ''channel'' \<noteq> JStr (UPMServiceNewClient ch) \<longrightarrow>
    deliver ch st ProcessListener ev =
      (case toString (propOf (envelopeOf (data ev)) ''channel'') of
         Inr c \<Rightarrow>
           (st\<lparr>logged := logged st @
               [Log Info ''Message received on utilityProcess'' [data ev],
                Log Error (''Unknown channel ('' @ c @ '')'') []]\<rparr>,
            Completed)
       | Inl e \<Rightarrow>
           (st\<lparr>logged := logged st @
               [Log Info ''Message received on utilityProcess'' [data ev]]\<rparr>,
            Uncaught e))) \<and>
   (reachable ch st \<longrightarrow> (port, clientId) \<in> set (messageListeners st) \<longrightarrow>
    \<not> nullish (envelopeOf (data ev)) \<longrightarrow>
    propOf (envelopeOf (data ev)) ''channel'' \<noteq> JStr (UPMServiceMessage ch) \<longrightarrow>
    (\<exists>c. toString clientId = Inr c \<and>
       deliver ch st (ClientListener port clientId) ev =
         (st\<lparr>logged := logged st @
             [Log Info (''Message received on client port ('' @ c @ '')'')
                [envelopeOf (data ev)]]\<rparr>,
          Uncaught
            (case toString (propOf (envelopeOf (data ev)) ''channel'') of
               Inr cs \<Rightarrow>
                 AssertError (''Only IPCChannel.UPMServiceMessage are allowed on client ports: ''
                                @ cs)
             | Inl e \<Rightarrow> e)))) \<and>
   (reachable ch st \<longrightarrow> attached st l \<longrightarrow> serviceMessage ch ev payload \<longrightarrow>
    propOf payload ''kind'' \<noteq> MessageKind_Request \<longrightarrow>
    propOf payload ''kind'' \<noteq> MessageKind_Event \<longrightarrow>
    (fst (deliver ch st l ev))\<lparr>logged := logged st\<rparr> = st \<and>
    (\<exists>line c. toString (listenerClientId l) = Inr c \<and>
       deliver ch st l ev =
         (case toString (propOf payload ''kind'') of
            Inr k \<Rightarrow>
              (st\<lparr>logged := logged st @
                  [line, Log Info (''onServiceMessage from (clientId='' @ c @ '')'') [payload],
                   Log Error (''Message kind ('' @ k @ '') is invalid here'') []]\<rparr>,
               Completed)
          | Inl e \<Rightarrow>
              settled l
                (st\<lparr>logged := logged st @
                    [line, Log Info (''onServiceMessage from (clientId='' @ c @ '')'') [payload]]\<rparr>,
                 Rejected e))))"
proof -
  let ?channel = "propOf (envelopeOf (data ev)) ''channel''"
  have a: "deliver ch st ProcessListener ev =
      (case toString ?channel of
         Inr c \<Rightarrow>
           (st\<lparr>logged := logged st @
               [Log Info ''Message received on utilityProcess'' [data ev],
                Log Error (''Unknown channel ('' @ c @ '')'') []]\<rparr>,
            Completed)
       | Inl e \<Rightarrow>
           (st\<lparr>logged := logged st @
               [Log Info ''Message received on utilityProcess'' [data ev]]\<rparr>,
            Uncaught e))"
    if "\<not> nullish (envelopeOf (data ev))"
      and "?channel \<noteq> JStr (UPMServiceMessage ch)"
      and "?channel \<noteq> JStr (UPMServiceNewClient ch)"
    using that by (simp add: onMessage_def Let_def logInfo_def logError_def split: sum.splits)
  have b: "\<exists>c. toString clientId = Inr c \<and>
       deliver ch st (ClientListener port clientId) ev =
         (st\<lparr>logged := logged st @
             [Log Info (''Message received on client port ('' @ c @ '')'')
                [envelopeOf (data ev)]]\<rparr>,
          Uncaught
            (case toString ?channel of
               Inr cs \<Rightarrow>
                 AssertError (''Only IPCChannel.UPMServiceMessage are allowed on client ports: ''
                                @ cs)
             | Inl e \<Rightarrow> e))"
    if r: "reachable ch st" and m: "(port, clientId) \<in> set (messageListeners st)"
      and n: "\<not> nullish (envelopeOf (data ev))"
      and c: "?channel \<noteq> JStr (UPMServiceMessage ch)"
  proof -
    from reachable_listeners_stringifiable [OF r m] obtain cs where
      cs: "toString clientId = Inr cs" by (auto simp add: stringifiable_iff)
    show ?thesis
      using n c cs
      by (simp add: clientPortMessage_def Let_def logInfo_def split: sum.splits)
  qed
  have c: "(fst (deliver ch st l ev))\<lparr>logged := logged st\<rparr> = st \<and>
    (\<exists>line c. toString (listenerClientId l) = Inr c \<and>
       deliver ch st l ev =
         (case toString (propOf payload ''kind'') of
            Inr k \<Rightarrow>
              (st\<lparr>logged := logged st @
                  [line, Log Info (''onServiceMessage from (clientId='' @ c @ '')'') [payload],
                   Log Error (''Message kind ('' @ k @ '') is invalid here'') []]\<rparr>,
               Completed)
          | Inl e \<Rightarrow>
              settled l
                (st\<lparr>logged := logged st @
                    [line, Log Info (''onServiceMessage from (clientId='' @ c @ '')'') [payload]]\<rparr>,
                 Rejected e)))"
    if r: "reachable ch st" and at: "attached st l" and s: "serviceMessage ch ev payload"
      and k1: "propOf payload ''kind'' \<noteq> MessageKind_Request"
      and k2: "propOf payload ''kind'' \<noteq> MessageKind_Event"
  proof -
    from deliver_service [OF r at s] obtain line where
      d: "deliver ch st l ev =
         settled l (onServiceMessage ch (st\<lparr>logged := logged st @ [line]\<rparr>)
                      (listenerClientId l) (listenerPort l) payload)"
      by blast
    from attached_stringifiable [OF r at] obtain c where
      c: "toString (listenerClientId l) = Inr c" by blast
    have n: "\<not> nullish payload" using s by (simp add: serviceMessage_def)
    note o = onServiceMessage_other_kind [OF c n k1 k2, of ch "st\<lparr>logged := logged st @ [line]\<rparr>"
        "listenerPort l"]
    have e: "deliver ch st l ev =
         (case toString (propOf payload ''kind'') of
            Inr k \<Rightarrow>
              (st\<lparr>logged := logged st @
                  [line, Log Info (''onServiceMessage from (clientId='' @ c @ '')'') [payload],
                   Log Error (''Message kind ('' @ k @ '') is invalid here'') []]\<rparr>,
               Completed)
          | Inl e \<Rightarrow>
              settled l
                (st\<lparr>logged := logged st @
                    [line, Log Info (''onServiceMessage from (clientId='' @ c @ '')'') [payload]]\<rparr>,
                 Rejected e))"
      by (simp add: d o split: sum.splits)
    have "(fst (deliver ch st l ev))\<lparr>logged := logged st\<rparr> = st"
      unfolding e
      by (cases l; cases "toString (propOf payload ''kind'')") (simp_all add: logError_def)
    then show ?thesis using c e by blast
  qed
  from a b c show ?thesis by blast
qed


theorem unrecognized_dropped_witness:
  "deliver channels init ProcessListener \<lparr>data = bogusEnvelope, ports = []\<rparr> =
     (init\<lparr>logged := [Log Info ''Message received on utilityProcess'' [bogusEnvelope],
                       Log Error ''Unknown channel (bogus)'' []]\<rparr>, Completed) \<and>
   deliver channels init ProcessListener \<lparr>data = oddChannelEnvelope, ports = []\<rparr> =
     (init\<lparr>logged := [Log Info ''Message received on utilityProcess'' [oddChannelEnvelope]]\<rparr>,
      Uncaught (TypeError ''Cannot convert object to primitive value'')) \<and>
   reachable channels (fst (deliver channels init ProcessListener
      \<lparr>data = newClientEnvelope ''c1'', ports = [7]\<rparr>)) \<and>
   snd (deliver channels
      (fst (deliver channels init ProcessListener \<lparr>data = newClientEnvelope ''c1'', ports = [7]\<rparr>))
      (ClientListener 7 (JStr ''c1'')) \<lparr>data = bogusEnvelope, ports = []\<rparr>) =
     Uncaught (AssertError ''Only IPCChannel.UPMServiceMessage are allowed on client ports: bogus'') \<and>
   posted (fst (deliver channels
      (fst (deliver channels init ProcessListener \<lparr>data = newClientEnvelope ''c1'', ports = [7]\<rparr>))
      (ClientListener 7 (JStr ''c1'')) \<lparr>data = bogusEnvelope, ports = []\<rparr>)) = [] \<and>
   deliver channels init ProcessListener \<lparr>data = serviceEnvelope heartbeatResponse, ports = []\<rparr> =
     (init\<lparr>logged := [Log Info ''Message received on utilityProcess''
                         [serviceEnvelope heartbeatResponse],
                       Log Info ''onServiceMessage from (clientId=main)'' [heartbeatResponse],
                       Log Error ''Message kind (response) is invalid here'' []]\<rparr>,
      Completed)"
proof -
  let ?st = "fst (deliver channels init ProcessListener
      \<lparr>data = newClientEnvelope ''c1'', ports = [7]\<rparr>)"
  let ?bogus = "\<lparr>data = bogusEnvelope, ports = []\<rparr>"
  let ?odd = "\<lparr>data = oddChannelEnvelope, ports = []\<rparr>"
  let ?response = "\<lparr>data = serviceEnvelope heartbeatResponse, ports = []\<rparr>"
  have r0: "reachable channels init" by (rule reach_init)
  have r: "reachable channels ?st"
    by (intro reach_deliver reach_init) (simp_all add: init_def)
  have st: "messageListeners ?st = [(7, JStr ''c1'')]" "posted ?st = []"
    by (simp_all add: onMessage_def onServiceClientPort_def envelopeOf_def getProp_def
          newClientEnvelope_def channels_def init_def Let_def logInfo_def)
  have m: "(7, JStr ''c1'') \<in> set (messageListeners ?st)"
    using st(1) by simp
  have b: "\<not> nullish (envelopeOf (data ?bogus))"
    "propOf (envelopeOf (data ?bogus)) ''channel'' \<noteq> JStr (UPMServiceMessage channels)"
    "propOf (envelopeOf (data ?bogus)) ''channel'' \<noteq> JStr (UPMServiceNewClient channels)"
    and bs: "toString (propOf (envelopeOf (data ?bogus)) ''channel'') = Inr ''bogus''"
    by (simp_all add: envelopeOf_def bogusEnvelope_def channels_def)
  have o: "\<not> nullish (envelopeOf (data ?odd))"
    "propOf (envelopeOf (data ?odd)) ''channel'' \<noteq> JStr (UPMServiceMessage channels)"
    "propOf (envelopeOf (data ?odd)) ''channel'' \<noteq> JStr (UPMServiceNewClient channels)"
    and os: "toString (propOf (envelopeOf (data ?odd)) ''channel'') =
      Inl (TypeError ''Cannot convert object to primitive value'')"
    by (simp_all add: envelopeOf_def oddChannelEnvelope_def notStringifiable_def)
  have k: "serviceMessage channels ?response heartbeatResponse"
    "propOf heartbeatResponse ''kind'' \<noteq> MessageKind_Request"
    "propOf heartbeatResponse ''kind'' \<noteq> MessageKind_Event"
    and ks: "toString (propOf heartbeatResponse ''kind'') = Inr ''response''"
    by (simp_all add: serviceMessage_def envelopeOf_def serviceEnvelope_def channels_def
          heartbeatResponse_def MessageKind_Request_def MessageKind_Event_def)
  have l0: "logged init = []" by (simp add: init_def)
  note t1 = unrecognized_dropped [of ?bogus channels init 7 "JStr ''c1''" ProcessListener
      heartbeatResponse]
  note t2 = unrecognized_dropped [of ?odd channels init 7 "JStr ''c1''" ProcessListener
      heartbeatResponse]
  note t3 = unrecognized_dropped [of ?bogus channels ?st 7 "JStr ''c1''" ProcessListener
      heartbeatResponse]
  note t4 = unrecognized_dropped [of ?response channels init 7 "JStr ''c1''" ProcessListener
      heartbeatResponse]
  from t1 b have "deliver channels init ProcessListener ?bogus =
      (case toString (propOf (envelopeOf (data ?bogus)) ''channel'') of
         Inr c \<Rightarrow>
           (init\<lparr>logged := logged init @
               [Log Info ''Message received on utilityProcess'' [data ?bogus],
                Log Error (''Unknown channel ('' @ c @ '')'') []]\<rparr>,
            Completed)
       | Inl e \<Rightarrow>
           (init\<lparr>logged := logged init @
               [Log Info ''Message received on utilityProcess'' [data ?bogus]]\<rparr>,
            Uncaught e))"
    by blast
  then have 1: "deliver channels init ProcessListener ?bogus =
     (init\<lparr>logged := [Log Info ''Message received on utilityProcess'' [bogusEnvelope],
                       Log Error ''Unknown channel (bogus)'' []]\<rparr>, Completed)"
    using bs l0 by simp
  from t2 o have "deliver channels init ProcessListener ?odd =
      (case toString (propOf (envelopeOf (data ?odd)) ''channel'') of
         Inr c \<Rightarrow>
           (init\<lparr>logged := logged init @
               [Log Info ''Message received on utilityProcess'' [data ?odd],
                Log Error (''Unknown channel ('' @ c @ '')'') []]\<rparr>,
            Completed)
       | Inl e \<Rightarrow>
           (init\<lparr>logged := logged init @
               [Log Info ''Message received on utilityProcess'' [data ?odd]]\<rparr>,
            Uncaught e))"
    by blast
  then have 2: "deliver channels init ProcessListener ?odd =
     (init\<lparr>logged := [Log Info ''Message received on utilityProcess'' [oddChannelEnvelope]]\<rparr>,
      Uncaught (TypeError ''Cannot convert object to primitive value''))"
    using os l0 by simp
  from t3 r m b(1,2) obtain c where
    "deliver channels ?st (ClientListener 7 (JStr ''c1'')) ?bogus =
         (?st\<lparr>logged := logged ?st @
             [Log Info (''Message received on client port ('' @ c @ '')'')
                [envelopeOf (data ?bogus)]]\<rparr>,
          Uncaught
            (case toString (propOf (envelopeOf (data ?bogus)) ''channel'') of
               Inr cs \<Rightarrow>
                 AssertError (''Only IPCChannel.UPMServiceMessage are allowed on client ports: ''
                                @ cs)
             | Inl e \<Rightarrow> e))"
    by blast
  then have 3: "snd (deliver channels ?st (ClientListener 7 (JStr ''c1'')) ?bogus) =
       Uncaught (AssertError ''Only IPCChannel.UPMServiceMessage are allowed on client ports: bogus'')"
    and 4: "posted (fst (deliver channels ?st (ClientListener 7 (JStr ''c1'')) ?bogus)) = []"
    using st(2) bs by simp_all
  from t4 r0 k have
    "\<exists>line c. toString (listenerClientId ProcessListener) = Inr c \<and>
       deliver channels init ProcessListener ?response =
         (case toString (propOf heartbeatResponse ''kind'') of
            Inr k \<Rightarrow>
              (init\<lparr>logged := logged init @
                  [line, Log Info (''onServiceMessage from (clientId='' @ c @ '')'')
                     [heartbeatResponse],
                   Log Error (''Message kind ('' @ k @ '') is invalid here'') []]\<rparr>,
               Completed)
          | Inl e \<Rightarrow>
              settled ProcessListener
                (init\<lparr>logged := logged init @
                    [line, Log Info (''onServiceMessage from (clientId='' @ c @ '')'')
                       [heartbeatResponse]]\<rparr>,
                 Rejected e))"
    by simp
  then obtain line where
    "deliver channels init ProcessListener ?response =
       (init\<lparr>logged := [line, Log Info ''onServiceMessage from (clientId=main)'' [heartbeatResponse],
                   Log Error ''Message kind (response) is invalid here'' []]\<rparr>, Completed)"
    using ks l0 by auto
  moreover have "hd (logged (fst (deliver channels init ProcessListener ?response))) =
      Log Info ''Message received on utilityProcess'' [serviceEnvelope heartbeatResponse]"
    by (simp add: onMessage_def onServiceMessage_def envelopeOf_def serviceEnvelope_def
          heartbeatResponse_def channels_def init_def Let_def MessageKind_Request_def
          MessageKind_Event_def logInfo_def logError_def)
  ultimately have 5: "deliver channels init ProcessListener ?response =
     (init\<lparr>logged := [Log Info ''Message received on utilityProcess''
                         [serviceEnvelope heartbeatResponse],
                       Log Info ''onServiceMessage from (clientId=main)'' [heartbeatResponse],
                       Log Error ''Message kind (response) is invalid here'' []]\<rparr>,
      Completed)"
    by simp
  from 1 2 3 4 5 r show ?thesis by blast
qed

subsection \<open>Client ports\<close>

text \<open>
  No method of the router writes \<open>clientPorts\<close>: in every state the router reaches, the
  registry is empty.
\<close>

lemma onServiceClientPort_clientPorts:
  "clientPorts (fst (onServiceClientPort st clientId port)) = clientPorts st"
  by (simp add: onServiceClientPort_def Let_def split: sum.splits option.splits)

lemma onMessage_clientPorts:
  "clientPorts (fst (onMessage ch st port message)) = clientPorts st"
proof -
  have b: "clientPorts (fst (case x of (st2, Inl e) \<Rightarrow> (st2, Uncaught e)
                          | (st2, Inr _) \<Rightarrow> (st2, Completed))) = clientPorts (fst x)"
    for x :: "state \<times> unit result"
    by (simp split: prod.splits sum.splits)
  show ?thesis
    by (simp add: onMessage_def Let_def b onServiceMessage_frame onServiceClientPort_clientPorts
          split: sum.splits)
qed

lemma clientPortMessage_clientPorts:
  "clientPorts (fst (clientPortMessage ch st clientId port ev)) = clientPorts st"
  by (simp add: clientPortMessage_def Let_def onServiceMessage_frame split: sum.splits)

lemma deliver_clientPorts:
  "clientPorts (fst (deliver ch st l ev)) = clientPorts st"
  by (cases l) (simp_all add: onMessage_clientPorts clientPortMessage_clientPorts)

lemma foldl_clientPortClose:
  "clientPorts (foldl clientPortClose st cs) = (\<lambda>c. if c \<in> set cs then None else clientPorts st c)"
  by (induction cs arbitrary: st) (auto simp add: clientPortClose_def fun_eq_iff)

lemma portClose_clientPorts:
  "clientPorts (portClose st port) =
     (\<lambda>c. if (port, c) \<in> set (closeListeners st) then None else clientPorts st c)"
  by (auto simp add: portClose_def foldl_clientPortClose fun_eq_iff image_iff)

lemma reachable_clientPorts_empty:
  "reachable ch st \<Longrightarrow> clientPorts st = Map.empty"
proof (induction rule: reachable.induct)
  case reach_init
  then show ?case by (simp add: init_def)
next
  case (reach_addRequestHandler st type handler)
  then show ?case by (simp add: addRequestHandler_def Let_def)
next
  case (reach_addEventHandler st handler)
  then show ?case by (simp add: addEventHandler_def Let_def)
next
  case (reach_deliver st l ev)
  then show ?case by (simp add: deliver_clientPorts)
next
  case (reach_portClose st port)
  then show ?case by (simp add: portClose_clientPorts fun_eq_iff)
qed

text \<open>
  The guard of \<open>onServiceClientPort\<close> refuses a \<^verbatim>\<open>clientId\<close> that the registry holds, and
  a new-client envelope with a fresh \<^verbatim>\<open>clientId\<close> attaches the two listeners to the port
  and starts it. As the registry is empty in every reachable state, the guard never fails
  there.
\<close>

lemma onServiceClientPort_registered:
  assumes "clientPorts st clientId = Some p" and "toString clientId = Inr c"
  shows "onServiceClientPort st clientId port =
     (logInfo (''Received new client port for clientId ('' @ c @ '')'') [] st,
      Inl (AssertError (''port already registered for clientId('' @ c @ '')'')))"
  using assms by (simp add: onServiceClientPort_def Let_def)

lemma onServiceClientPort_fresh:
  assumes "clientPorts st clientId = None" and "toString clientId = Inr c"
  shows "onServiceClientPort st clientId (Some port) =
     ((logInfo (''Received new client port for clientId ('' @ c @ '')'') [] st)
        \<lparr>messageListeners := messageListeners st @ [(port, clientId)],
         closeListeners := closeListeners st @ [(port, clientId)],
         started := started st @ [port]\<rparr>,
      Inr ())"
  using assms by (simp add: onServiceClientPort_def Let_def)

lemma onMessage_new_client:
  assumes "\<not> nullish (envelopeOf (data message))"
    and "propOf (envelopeOf (data message)) ''channel'' = JStr (UPMServiceNewClient ch)"
    and "UPMServiceNewClient ch \<noteq> UPMServiceMessage ch"
    and "\<not> nullish (propOf (envelopeOf (data message)) ''payload'')"
    and "ports message = port # ps"
    and "clientPorts st (propOf (propOf (envelopeOf (data message)) ''payload'') ''clientId'') = None"
    and "toString (propOf (propOf (envelopeOf (data message)) ''payload'') ''clientId'') = Inr c"
  shows "onMessage ch st processPort message =
     (case onServiceClientPort (logInfo ''Message received on utilityProcess'' [data message] st)
        (propOf (propOf (envelopeOf (data message)) ''payload'') ''clientId'') (Some port) of
        (st2, r) \<Rightarrow> (st2, Completed))"
  using assms by (simp add: onMessage_def Let_def getProp_def onServiceClientPort_fresh)

lemma reachable_registration_accepted:
  assumes "reachable ch st" and "toString clientId = Inr c"
  shows "snd (onServiceClientPort st clientId (Some port)) = Inr ()"
  using reachable_clientPorts_empty [OF assms(1)] assms(2)
  by (simp add: onServiceClientPort_fresh)

text \<open>
  C6. The claim is that a new-client envelope registers the port in the client-port
  registry under the \<^verbatim>\<open>clientId\<close> of the payload. On the first such envelope, with port 7
  and \<^verbatim>\<open>clientId\<close> c1, the router attaches its listeners to the port and starts it, and
  the registry has no entry for c1.
\<close>

theorem new_client_port_is_not_registered:
  "snd (onMessage channels init processPort \<lparr>data = newClientEnvelope ''c1'', ports = [7]\<rparr>) = Completed \<and>
   messageListeners (fst (onMessage channels init processPort
      \<lparr>data = newClientEnvelope ''c1'', ports = [7]\<rparr>)) = [(7, JStr ''c1'')] \<and>
   started (fst (onMessage channels init processPort
      \<lparr>data = newClientEnvelope ''c1'', ports = [7]\<rparr>)) = [7] \<and>
   clientPorts (fst (onMessage channels init processPort
      \<lparr>data = newClientEnvelope ''c1'', ports = [7]\<rparr>)) (JStr ''c1'') = None"
  by (simp add: onMessage_def onServiceClientPort_def envelopeOf_def getProp_def
        newClientEnvelope_def channels_def init_def Let_def logInfo_def)

text \<open>
  C7. The claim is that a second registration for a \<^verbatim>\<open>clientId\<close> fails. After the
  registration of c1 with port 7, a new-client envelope for c1 with port 8 is accepted:
  the listener returns, and both ports listen under c1.
\<close>

theorem second_registration_is_accepted:
  "snd (onMessage channels
      (fst (onMessage channels init processPort \<lparr>data = newClientEnvelope ''c1'', ports = [7]\<rparr>))
      processPort \<lparr>data = newClientEnvelope ''c1'', ports = [8]\<rparr>) = Completed \<and>
   messageListeners (fst (onMessage channels
      (fst (onMessage channels init processPort \<lparr>data = newClientEnvelope ''c1'', ports = [7]\<rparr>))
      processPort \<lparr>data = newClientEnvelope ''c1'', ports = [8]\<rparr>)) =
     [(7, JStr ''c1''), (8, JStr ''c1'')] \<and>
   started (fst (onMessage channels
      (fst (onMessage channels init processPort \<lparr>data = newClientEnvelope ''c1'', ports = [7]\<rparr>))
      processPort \<lparr>data = newClientEnvelope ''c1'', ports = [8]\<rparr>)) = [7, 8]"
  by (simp add: onMessage_def onServiceClientPort_def envelopeOf_def getProp_def
        newClientEnvelope_def channels_def init_def Let_def logInfo_def)


subsection \<open>The process port and the two forms of an envelope\<close>

text \<open>What \<open>onServiceMessage\<close> posts, it posts on the port it is given: one message at most.\<close>

lemma onServiceMessage_posted:
  "posted (fst (onServiceMessage ch st c port payload)) = posted st \<or>
   (\<exists>m. posted (fst (onServiceMessage ch st c port payload)) = posted st @ [(port, m)])"
proof -
  have t: "(snd (requestTry ch s port type messageId args) \<noteq> TryDone \<longrightarrow>
        posted (fst (requestTry ch s port type messageId args)) = posted s) \<and>
      (snd (requestTry ch s port type messageId args) = TryDone \<longrightarrow>
        (\<exists>m. posted (fst (requestTry ch s port type messageId args)) = posted s @ [(port, m)]))"
    for s type messageId args
    by (simp add: requestTry_def Let_def split: sum.splits option.splits awaited.splits)
  have c: "posted (fst (requestCatch ch s port type messageId err)) = posted s \<or>
      (\<exists>m. posted (fst (requestCatch ch s port type messageId err)) = posted s @ [(port, m)])"
    for s type messageId err
    by (simp add: requestCatch_def Let_def split: sum.splits)
  have r: "posted (fst (onRequest ch s port type messageId args)) = posted s \<or>
      (\<exists>m. posted (fst (onRequest ch s port type messageId args)) = posted s @ [(port, m)])"
    for s type messageId args
  proof (cases "requestTry ch s port type messageId args")
    case (Pair s1 e)
    show ?thesis
    proof (cases e)
      case TryDone
      then show ?thesis using Pair t [of s type messageId args] by (simp add: onRequest_def)
    next
      case (TryThrew err)
      then have "posted s1 = posted s" using Pair t [of s type messageId args] by simp
      then show ?thesis using Pair TryThrew c [of s1 type messageId err] by (simp add: onRequest_def)
    next
      case TryStuck
      then show ?thesis using Pair t [of s type messageId args] by (simp add: onRequest_def)
    qed
  qed
  show ?thesis
  proof (cases "toString c")
    case (Inl e)
    then show ?thesis by (simp add: onServiceMessage_def)
  next
    case (Inr cs)
    then show ?thesis
      using r [of "logInfo (''onServiceMessage from (clientId='' @ cs @ '')'') [payload] st"]
      by (simp add: onServiceMessage_def Let_def onEvent_frame split: sum.splits)
  qed
qed

lemma envelopeOf_forms:
  "\<not> nullish env \<Longrightarrow> envelopeOf (JObj [(''message'', env)]) = env"
  "nullish (propOf env ''message'') \<Longrightarrow> envelopeOf env = env"
  by (simp_all add: envelopeOf_def)

text \<open>
  C10. A service envelope on the process port is handled by \<open>onServiceMessage\<close> with the
  client identifier \<^verbatim>\<open>"main"\<close> and the process port, and what the router posts then it
  posts on the process port; on a client port to which the router has attached a listener,
  it is handled by \<open>onServiceMessage\<close> with the \<^verbatim>\<open>clientId\<close> and the port of the
  listener. On either port the envelope is found as the data of the event or under the
  \<^verbatim>\<open>message\<close> field of the data, and the two forms are handled in the same way: they
  differ only by the log line of \<open>onMessage\<close> that prints the data.
\<close>

theorem process_port_service_message:
  assumes "reachable ch st"
    and "\<not> nullish env" and "nullish (propOf env ''message'')"
    and "propOf env ''channel'' = JStr (UPMServiceMessage ch)"
    and "d = env \<or> d = JObj [(''message'', env)]"
  shows "onMessage ch st processPort \<lparr>data = d, ports = ps\<rparr> =
       dropped (onServiceMessage ch
                  (logInfo ''Message received on utilityProcess'' [d] st)
                  (JStr ''main'') processPort (propOf env ''payload'')) \<and>
     (posted (fst (onMessage ch st processPort \<lparr>data = d, ports = ps\<rparr>)) = posted st \<or>
      (\<exists>m. posted (fst (onMessage ch st processPort \<lparr>data = d, ports = ps\<rparr>)) =
             posted st @ [(processPort, m)])) \<and>
     ((port, clientId) \<in> set (messageListeners st) \<longrightarrow>
        (\<exists>c. toString clientId = Inr c \<and>
           clientPortMessage ch st clientId port \<lparr>data = d, ports = ps\<rparr> =
             onFailure (onServiceMessage ch
                          (logInfo (''Message received on client port ('' @ c @ '')'') [env] st)
                          clientId port (propOf env ''payload''))))"
proof -
  have e: "envelopeOf d = env"
    using assms(2,3,5) envelopeOf_forms [of env] by auto
  let ?st1 = "logInfo ''Message received on utilityProcess'' [d] st"
  have a: "onMessage ch st processPort \<lparr>data = d, ports = ps\<rparr> =
       dropped (onServiceMessage ch ?st1 (JStr ''main'') processPort (propOf env ''payload''))"
    using assms(2,4) by (simp add: onMessage_def Let_def e)
  have b: "posted (fst (onMessage ch st processPort \<lparr>data = d, ports = ps\<rparr>)) = posted st \<or>
      (\<exists>m. posted (fst (onMessage ch st processPort \<lparr>data = d, ports = ps\<rparr>)) =
             posted st @ [(processPort, m)])"
    using onServiceMessage_posted [of ch ?st1 "JStr ''main''" processPort "propOf env ''payload''"]
    by (simp add: a)
  have c: "\<exists>c. toString clientId = Inr c \<and>
           clientPortMessage ch st clientId port \<lparr>data = d, ports = ps\<rparr> =
             onFailure (onServiceMessage ch
                          (logInfo (''Message received on client port ('' @ c @ '')'') [env] st)
                          clientId port (propOf env ''payload''))"
    if m: "(port, clientId) \<in> set (messageListeners st)"
  proof -
    from reachable_listeners_stringifiable [OF assms(1) m] obtain c where
      c: "toString clientId = Inr c" by (auto simp add: stringifiable_iff)
    have "clientPortMessage ch st clientId port \<lparr>data = d, ports = ps\<rparr> =
        onFailure (onServiceMessage ch
                     (logInfo (''Message received on client port ('' @ c @ '')'') [env] st)
                     clientId port (propOf env ''payload''))"
      using assms(2,4) c by (simp add: clientPortMessage_def Let_def e)
    then show ?thesis using c by blast
  qed
  from a b c show ?thesis by blast
qed

theorem process_port_service_message_witness:
  "reachable channels (fst (onMessage channels (addEventHandler exampleEventHandler init)
      processPort \<lparr>data = newClientEnvelope ''c1'', ports = [7]\<rparr>)) \<and>
   calls (fst (onMessage channels
      (fst (onMessage channels (addEventHandler exampleEventHandler init)
         processPort \<lparr>data = newClientEnvelope ''c1'', ports = [7]\<rparr>))
      processPort \<lparr>data = JObj [(''message'', serviceEnvelope tickEvent)], ports = []\<rparr>)) =
     [EventCall 0 (JStr ''main'') processPort (JNum 5)] \<and>
   calls (fst (onMessage channels
      (fst (onMessage channels (addEventHandler exampleEventHandler init)
         processPort \<lparr>data = newClientEnvelope ''c1'', ports = [7]\<rparr>))
      processPort \<lparr>data = serviceEnvelope tickEvent, ports = []\<rparr>)) =
     [EventCall 0 (JStr ''main'') processPort (JNum 5)] \<and>
   calls (fst (clientPortMessage channels
      (fst (onMessage channels (addEventHandler exampleEventHandler init)
         processPort \<lparr>data = newClientEnvelope ''c1'', ports = [7]\<rparr>))
      (JStr ''c1'') 7 \<lparr>data = JObj [(''message'', serviceEnvelope tickEvent)], ports = []\<rparr>)) =
     [EventCall 0 (JStr ''c1'') 7 (JNum 5)] \<and>
   calls (fst (clientPortMessage channels
      (fst (onMessage channels (addEventHandler exampleEventHandler init)
         processPort \<lparr>data = newClientEnvelope ''c1'', ports = [7]\<rparr>))
      (JStr ''c1'') 7 \<lparr>data = serviceEnvelope tickEvent, ports = []\<rparr>)) =
     [EventCall 0 (JStr ''c1'') 7 (JNum 5)]"
proof -
  let ?base = "addEventHandler exampleEventHandler init"
  let ?st = "fst (onMessage channels ?base processPort
      \<lparr>data = newClientEnvelope ''c1'', ports = [7]\<rparr>)"
  let ?env = "serviceEnvelope tickEvent"
  let ?nested = "JObj [(''message'', ?env)]"
  have c0: "closedPorts ?base = []"
    by (simp add: addEventHandler_def init_def Let_def)
  have "reachable channels (fst (deliver channels ?base ProcessListener
      \<lparr>data = newClientEnvelope ''c1'', ports = [7]\<rparr>))"
    by (intro reach_deliver reach_addEventHandler reach_init) (simp_all add: c0)
  then have r: "reachable channels ?st" by simp
  have st: "messageListeners ?st = [(7, JStr ''c1'')]" "calls ?st = []"
    "eventHandlers ?st = [exampleEventHandler]"
    by (simp_all add: onMessage_def onServiceClientPort_def envelopeOf_def getProp_def
          newClientEnvelope_def channels_def addEventHandler_def init_def Let_def logInfo_def)
  have m: "(7, JStr ''c1'') \<in> set (messageListeners ?st)"
    using st(1) by simp
  have n: "\<not> nullish ?env" and nm: "nullish (propOf ?env ''message'')"
    and ch: "propOf ?env ''channel'' = JStr (UPMServiceMessage channels)"
    and p: "propOf ?env ''payload'' = tickEvent"
    by (simp_all add: serviceEnvelope_def channels_def)
  have ev: "calls (fst (onServiceMessage channels s c port tickEvent)) =
      [EventCall 0 c port (JNum 5)]"
    if "calls s = []" and "eventHandlers s = [exampleEventHandler]" and "stringifiable c"
    for s c port
    using that
    by (auto simp add: stringifiable_iff onServiceMessage_def onEvent_def tickEvent_def
          MessageKind_Request_def MessageKind_Event_def exampleEventHandler_def Let_def)
  note t1 = process_port_service_message [OF r n nm ch, of ?nested "[]" 7 "JStr ''c1''"]
  note t2 = process_port_service_message [OF r n nm ch, of ?env "[]" 7 "JStr ''c1''"]
  from t1 m obtain c where
    a1: "onMessage channels ?st processPort \<lparr>data = ?nested, ports = []\<rparr> =
       dropped (onServiceMessage channels
                  (logInfo ''Message received on utilityProcess'' [?nested] ?st)
                  (JStr ''main'') processPort (propOf ?env ''payload''))"
    and b1: "clientPortMessage channels ?st (JStr ''c1'') 7 \<lparr>data = ?nested, ports = []\<rparr> =
       onFailure (onServiceMessage channels
                    (logInfo (''Message received on client port ('' @ c @ '')'') [?env] ?st)
                    (JStr ''c1'') 7 (propOf ?env ''payload''))"
    by blast
  from t2 m obtain c' where
    a2: "onMessage channels ?st processPort \<lparr>data = ?env, ports = []\<rparr> =
       dropped (onServiceMessage channels
                  (logInfo ''Message received on utilityProcess'' [?env] ?st)
                  (JStr ''main'') processPort (propOf ?env ''payload''))"
    and b2: "clientPortMessage channels ?st (JStr ''c1'') 7 \<lparr>data = ?env, ports = []\<rparr> =
       onFailure (onServiceMessage channels
                    (logInfo (''Message received on client port ('' @ c' @ '')'') [?env] ?st)
                    (JStr ''c1'') 7 (propOf ?env ''payload''))"
    by blast
  have s: "stringifiable (JStr ''main'')" "stringifiable (JStr ''c1'')"
    by (simp_all add: stringifiable_def)
  show ?thesis
    using r by (simp add: a1 b1 a2 b2 p ev st s)
qed

end
